theory Spec2Isabelle
  imports
    Complex_Main
    "HOL-Library.Multiset"
    "HOL-Library.Char_ord"
    "HOL-Library.List_Lexorder"
    "HOL-Library.Sublist"
begin

section \<open>The market data client (polygonService)\<close>

text \<open>
  The client is a set of async functions, each a \<^verbatim>\<open>try { ... } catch (error) { ... }\<close>
  around one or more \<^verbatim>\<open>axios.get\<close> calls. The embedding makes the two effects explicit:
  a thrown exception is the \<open>Inl\<close> of a sum, and every request issued is recorded in a
  bag of requests returned beside the result.

  The provider is a parameter: one function per endpoint, from the arguments that the
  URL carries to either a failure (the rejected promise of \<^verbatim>\<open>axios.get\<close>) or the typed
  payload \<^verbatim>\<open>response.data\<close>. A payload field that the source guards with \<^verbatim>\<open>&&\<close>,
  \<^verbatim>\<open>?.\<close> or \<^verbatim>\<open>||\<close> is optional here (\<open>None\<close> is the absent field). JavaScript numbers
  read from a JSON payload are finite and are modelled as reals: rounding and overflow
  of IEEE doubles are not modelled. A division can leave the finite range, so its result
  has a type of its own.
\<close>

subsection \<open>Errors, requests and the effect type\<close>

datatype error =
    RequestFailed string  \<comment> \<open>the rejection of \<^verbatim>\<open>axios.get\<close>: transport failure or non-2xx status\<close>
  | Error string          \<comment> \<open>\<^verbatim>\<open>new Error(message)\<close> thrown by the client itself\<close>
  | RangeError string     \<comment> \<open>thrown by \<^verbatim>\<open>Date.prototype.toISOString\<close> on an invalid time value\<close>

datatype timespan = Day | Week | Month | Quarter | Year

datatype request =
    PrevAgg string                            \<comment> \<open>\<^verbatim>\<open>/v2/aggs/ticker/${symbol}/prev\<close>\<close>
  | Tickers string                            \<comment> \<open>\<^verbatim>\<open>/v3/reference/tickers?search=${query}\<close>\<close>
  | AggRange string timespan string string real
      \<comment> \<open>\<^verbatim>\<open>/v2/aggs/ticker/${symbol}/range/1/${timespan}/${from}/${to}?...limit=${limit}\<close>\<close>
  | Contracts string "string option"
      \<comment> \<open>\<^verbatim>\<open>/v3/reference/options/contracts?underlying_ticker=...[&expiration_date=...]\<close>\<close>
  | LastTrade string                          \<comment> \<open>\<^verbatim>\<open>/v2/last/trade/${optionSymbol}\<close>\<close>
  | Snapshot string                           \<comment> \<open>\<^verbatim>\<open>/v3/snapshot/options/${optionSymbol}\<close>\<close>
  | MarketStatusNow                           \<comment> \<open>\<^verbatim>\<open>/v1/marketstatus/now\<close>\<close>

type_synonym 'a client = "(error + 'a) \<times> request multiset"

definition resolve :: "'a \<Rightarrow> 'a client" where
  "resolve v = (Inr v, {#})"

definition throw :: "error \<Rightarrow> 'a client" where
  "throw e = (Inl e, {#})"

definition axios_get :: "request \<Rightarrow> error + 'a \<Rightarrow> 'a client" where
  "axios_get req reply = (reply, {#req#})"

definition await :: "'a client \<Rightarrow> ('a \<Rightarrow> 'b client) \<Rightarrow> 'b client" where
  "await m k =
     (case fst m of
        Inl e \<Rightarrow> (Inl e, snd m)
      | Inr v \<Rightarrow> (fst (k v), snd m + snd (k v)))"

definition try_catch :: "'a client \<Rightarrow> (error \<Rightarrow> 'a client) \<Rightarrow> 'a client" where
  "try_catch body handler =
     (case fst body of
        Inl e \<Rightarrow> (fst (handler e), snd body + snd (handler e))
      | Inr v \<Rightarrow> body)"

text \<open>
  \<^verbatim>\<open>Promise.all(rows.map(async row => ...))\<close>: every element's computation is started,
  the results keep the order of the rows, and the first rejection rejects the whole.
  The requests of all elements are issued whether or not one of them rejects.
\<close>

fun promise_all :: "'a client list \<Rightarrow> 'a list client" where
  "promise_all [] = (Inr [], {#})"
| "promise_all (m # ms) =
     (case fst m of
        Inl e \<Rightarrow> (Inl e, snd m + snd (promise_all ms))
      | Inr v \<Rightarrow>
          (case fst (promise_all ms) of
             Inl e \<Rightarrow> (Inl e, snd m + snd (promise_all ms))
           | Inr vs \<Rightarrow> (Inr (v # vs), snd m + snd (promise_all ms))))"

subsection \<open>Numbers\<close>

text \<open>
  The value of a JavaScript division: a finite quotient, or one of \<^verbatim>\<open>Infinity\<close>,
  \<^verbatim>\<open>-Infinity\<close> and \<^verbatim>\<open>NaN\<close> when the divisor is zero (\<open>NonFinite\<close> stands for the three).
\<close>

datatype jsnum = Finite real | NonFinite

definition js_div :: "real \<Rightarrow> real \<Rightarrow> jsnum" where
  "js_div a b = (if b = 0 then NonFinite else Finite (a / b))"

fun js_mul :: "jsnum \<Rightarrow> real \<Rightarrow> jsnum" where
  "js_mul (Finite a) b = Finite (a * b)"
| "js_mul NonFinite b = NonFinite"

text \<open>\<^verbatim>\<open>x || d\<close> on a number that may be absent: \<open>undefined\<close> and \<open>0\<close> are falsy.\<close>

definition or_else :: "real option \<Rightarrow> real \<Rightarrow> real" where
  "or_else x d = (case x of None \<Rightarrow> d | Some v \<Rightarrow> if v = 0 then d else v)"

subsection \<open>Payloads of the provider\<close>

record agg =
  agg_t :: real
  agg_o :: real
  agg_h :: real
  agg_l :: real
  agg_c :: real
  agg_v :: real

record ticker_row =
  row_ticker :: "string option"
  row_name :: "string option"
  row_market :: "string option"
  row_primary_exchange :: "string option"
  row_type :: "string option"

record contract_row =
  contract_ticker :: string
  underlying_ticker :: string
  expiration_date :: string
  strike_price :: real
  contract_type :: string

record trade =
  trade_p :: "real option"

record quote_side =
  side_p :: "real option"

record day_bar =
  day_v :: "real option"

record snapshot_greeks =
  snap_delta :: "real option"
  snap_gamma :: "real option"
  snap_theta :: "real option"
  snap_vega :: "real option"
  snap_rho :: "real option"

record snapshot =
  snap_bid :: "quote_side option"
  snap_ask :: "quote_side option"
  open_interest :: "real option"
  snap_day :: "day_bar option"
  implied_volatility :: "real option"
  snap_greeks :: "snapshot_greeks option"

text \<open>\<^verbatim>\<open>response.data\<close>: the field \<^verbatim>\<open>results\<close> is absent on an empty or error reply.\<close>

record 'a response =
  results :: "'a option"

record exchanges =
  nasdaq :: string
  nyse :: string
  otc :: string

record currencies =
  fx :: string
  crypto :: string

record market_status =
  market :: string
  serverTime :: string
  status_exchanges :: exchanges
  status_currencies :: currencies

record provider =
  get_prev_agg :: "string \<Rightarrow> error + agg list response"
  get_tickers :: "string \<Rightarrow> error + ticker_row list response"
  get_agg_range :: "string \<Rightarrow> timespan \<Rightarrow> string \<Rightarrow> string \<Rightarrow> real \<Rightarrow> error + agg list response"
  get_contracts :: "string \<Rightarrow> string option \<Rightarrow> error + contract_row list response"
  get_last_trade :: "string \<Rightarrow> error + trade response"
  get_snapshot :: "string \<Rightarrow> error + snapshot response"
  get_market_status :: "error + market_status"

subsection \<open>Records returned by the client\<close>

record StockData =
  ticker :: string
  currentPrice :: real
  previousClose :: real
  change :: real
  changePercent :: jsnum

record OptionGreeks =
  delta :: real
  gamma :: real
  theta :: real
  vega :: real
  rho :: "real option"

record OptionData =
  symbol :: string
  underlyingSymbol :: string
  expirationDate :: string
  strikePrice :: real
  optionType :: string
  lastPrice :: real
  bidPrice :: real
  askPrice :: real
  openInterest :: real
  volume :: real
  impliedVolatility :: real
  greeks :: OptionGreeks

record HistoricalPriceData =
  hist_date :: string
  hist_open :: real
  hist_high :: real
  hist_low :: real
  hist_close :: real
  hist_volume :: real

record SymbolMatch =
  match_symbol :: "string option"
  match_name :: "string option"
  match_market :: "string option"
  match_primaryExchange :: "string option"
  match_type :: "string option"

subsection \<open>fetchStockPrice\<close>

definition fetchStockPrice :: "provider \<Rightarrow> string \<Rightarrow> StockData client" where
  "fetchStockPrice p stock =
     try_catch
       (await (axios_get (PrevAgg stock) (get_prev_agg p stock)) (\<lambda>response.
          case results response of
            Some (result # _) \<Rightarrow>
              (let chg = agg_c result - agg_o result;
                   pct = js_mul (js_div chg (agg_o result)) 100
               in resolve \<lparr>ticker = stock,
                            currentPrice = agg_c result,
                            previousClose = agg_o result,
                            change = chg,
                            changePercent = pct\<rparr>)
          | _ \<Rightarrow> throw (Error ''No data available'')))
       (\<lambda>error. throw error)"

subsection \<open>searchStocks and fetchHistoricalPrices\<close>

definition searchStocks :: "provider \<Rightarrow> string \<Rightarrow> SymbolMatch list client" where
  "searchStocks p query =
     try_catch
       (await (axios_get (Tickers query) (get_tickers p query)) (\<lambda>response.
          case results response of
            Some rows \<Rightarrow>
              resolve (map (\<lambda>item. \<lparr>match_symbol = row_ticker item,
                                      match_name = row_name item,
                                      match_market = row_market item,
                                      match_primaryExchange = row_primary_exchange item,
                                      match_type = row_type item\<rparr>) rows)
          | None \<Rightarrow> resolve []))
       (\<lambda>error. resolve [])"

text \<open>
  \<^verbatim>\<open>new Date(item.t).toISOString().split('T')[0]\<close> is a library computation; it is the
  parameter \<open>isoDate\<close>, which is \<open>None\<close> where \<^verbatim>\<open>toISOString\<close> throws a RangeError
  (a time value outside the range of \<^verbatim>\<open>Date\<close>). A throw inside the callback of
  \<^verbatim>\<open>map\<close> abandons the whole mapping.
\<close>

fun map_throwing :: "('a \<Rightarrow> error + 'b) \<Rightarrow> 'a list \<Rightarrow> error + 'b list" where
  "map_throwing f [] = Inr []"
| "map_throwing f (x # xs) =
     (case f x of
        Inl e \<Rightarrow> Inl e
      | Inr y \<Rightarrow> (case map_throwing f xs of Inl e \<Rightarrow> Inl e | Inr ys \<Rightarrow> Inr (y # ys)))"

definition toHistorical :: "(real \<Rightarrow> string option) \<Rightarrow> agg \<Rightarrow> error + HistoricalPriceData" where
  "toHistorical isoDate item =
     (case isoDate (agg_t item) of
        None \<Rightarrow> Inl (RangeError ''Invalid time value'')
      | Some d \<Rightarrow> Inr \<lparr>hist_date = d,
                        hist_open = agg_o item,
                        hist_high = agg_h item,
                        hist_low = agg_l item,
                        hist_close = agg_c item,
                        hist_volume = agg_v item\<rparr>)"

definition fetchHistoricalPrices ::
  "(real \<Rightarrow> string option) \<Rightarrow> provider \<Rightarrow> string \<Rightarrow> timespan \<Rightarrow> string \<Rightarrow> string \<Rightarrow> real
     \<Rightarrow> HistoricalPriceData list client" where
  "fetchHistoricalPrices isoDate p stock tspan from to limit =
     try_catch
       (await (axios_get (AggRange stock tspan from to limit) (get_agg_range p stock tspan from to limit))
          (\<lambda>response.
             case results response of
               Some rows \<Rightarrow> (map_throwing (toHistorical isoDate) rows, {#})
             | None \<Rightarrow> resolve []))
       (\<lambda>error. resolve [])"

subsection \<open>fetchMarketStatus\<close>

text \<open>\<open>now\<close> is \<^verbatim>\<open>new Date().toISOString()\<close> at the time of the failure.\<close>

definition closedMarketStatus :: "string \<Rightarrow> market_status" where
  "closedMarketStatus now =
     \<lparr>market = ''closed'',
      serverTime = now,
      status_exchanges = \<lparr>nasdaq = ''closed'', nyse = ''closed'', otc = ''closed''\<rparr>,
      status_currencies = \<lparr>fx = ''closed'', crypto = ''open''\<rparr>\<rparr>"

definition fetchMarketStatus :: "string \<Rightarrow> provider \<Rightarrow> market_status client" where
  "fetchMarketStatus now p =
     try_catch
       (await (axios_get MarketStatusNow (get_market_status p)) (\<lambda>data. resolve data))
       (\<lambda>error. resolve (closedMarketStatus now))"

subsection \<open>fetchOptionsExpirations\<close>

text \<open>\<^verbatim>\<open>Array.prototype.indexOf\<close>: the first index of the value, or \<open>-1\<close>.\<close>

fun indexOf :: "'a list \<Rightarrow> 'a \<Rightarrow> int" where
  "indexOf [] v = - 1"
| "indexOf (x # xs) v =
     (if x = v then 0 else (let i = indexOf xs v in if i < 0 then - 1 else i + 1))"

text \<open>\<^verbatim>\<open>self.filter((value, index, self) => ...)\<close>: the callback sees the index and the array.\<close>

definition filter_indexed :: "('a \<Rightarrow> nat \<Rightarrow> 'a list \<Rightarrow> bool) \<Rightarrow> 'a list \<Rightarrow> 'a list" where
  "filter_indexed f self =
     map fst (filter (\<lambda>(v, index). f v index self) (zip self [0..<length self]))"

text \<open>
  \<^verbatim>\<open>.sort()\<close> with no comparator orders strings by their code units; on the ASCII
  strings of a date that is the lexicographic order of \<open>char list\<close>. The order is total,
  so every sorting algorithm returns the same list: \<open>sort\<close> stands for the engine's.
\<close>

definition fetchOptionsExpirations :: "provider \<Rightarrow> string \<Rightarrow> string list client" where
  "fetchOptionsExpirations p underlying =
     try_catch
       (await (axios_get (Contracts underlying None) (get_contracts p underlying None))
          (\<lambda>response.
             case results response of
               Some (r # rs) \<Rightarrow>
                 resolve
                   (sort
                      (filter_indexed (\<lambda>v index self. indexOf self v = int index)
                         (map expiration_date (r # rs))))
             | _ \<Rightarrow> resolve []))
       (\<lambda>error. throw error)"

subsection \<open>fetchOptionDetails and fetchOptionsData\<close>

record OptionDetails =
  details_lastPrice :: real
  details_bidPrice :: real
  details_askPrice :: real
  details_openInterest :: real
  details_volume :: real
  details_impliedVolatility :: real
  details_greeks :: OptionGreeks

definition defaultDetails :: OptionDetails where
  "defaultDetails =
     \<lparr>details_lastPrice = 0,
      details_bidPrice = 0,
      details_askPrice = 0,
      details_openInterest = 0,
      details_volume = 0,
      details_impliedVolatility = 0,
      details_greeks = \<lparr>delta = 0, gamma = 0, theta = 0, vega = 0, rho = Some 0\<rparr>\<rparr>"

text \<open>\<^verbatim>\<open>a?.b\<close> is \<open>Option.bind a b\<close>.\<close>

definition extractDetails :: "trade response \<Rightarrow> snapshot response \<Rightarrow> OptionDetails" where
  "extractDetails tradeResponse snapshotResponse =
     (let last = or_else (Option.bind (results tradeResponse) trade_p) 0;
          snap = results snapshotResponse;
          g = Option.bind snap snap_greeks
      in \<lparr>details_lastPrice = last,
          details_bidPrice = or_else (Option.bind (Option.bind snap snap_bid) side_p) 0,
          details_askPrice = or_else (Option.bind (Option.bind snap snap_ask) side_p) 0,
          details_openInterest = or_else (Option.bind snap open_interest) 0,
          details_volume = or_else (Option.bind (Option.bind snap snap_day) day_v) 0,
          details_impliedVolatility = or_else (Option.bind snap implied_volatility) 0,
          details_greeks =
            \<lparr>delta = or_else (Option.bind g snap_delta) 0,
             gamma = or_else (Option.bind g snap_gamma) 0,
             theta = or_else (Option.bind g snap_theta) 0,
             vega = or_else (Option.bind g snap_vega) 0,
             rho = Some (or_else (Option.bind g snap_rho) 0)\<rparr>\<rparr>)"

definition fetchOptionDetails :: "provider \<Rightarrow> string \<Rightarrow> OptionDetails client" where
  "fetchOptionDetails p optionSymbol =
     try_catch
       (await (axios_get (LastTrade optionSymbol) (get_last_trade p optionSymbol))
          (\<lambda>tradeResponse.
        await (axios_get (Snapshot optionSymbol) (get_snapshot p optionSymbol))
          (\<lambda>snapshotResponse.
             resolve (extractDetails tradeResponse snapshotResponse))))
       (\<lambda>error. resolve defaultDetails)"

text \<open>
  \<^verbatim>\<open>String.prototype.toLowerCase\<close> on ASCII: an upper-case letter has code 65 to 90,
  and adding 32 to it sets bit 5 of the code, which is clear in that range.
\<close>

definition lower_char :: "char \<Rightarrow> char" where
  "lower_char ch =
     (if CHR ''A'' \<le> ch \<and> ch \<le> CHR ''Z''
      then (case ch of Char b0 b1 b2 b3 b4 b5 b6 b7 \<Rightarrow> Char b0 b1 b2 b3 b4 True b6 b7)
      else ch)"

definition toLowerCase :: "string \<Rightarrow> string" where
  "toLowerCase str = map lower_char str"

text \<open>
  The object built for one listing row. \<^verbatim>\<open>details.greeks || {...}\<close> is
  \<^verbatim>\<open>details.greeks\<close>: an object is truthy, and \<open>fetchOptionDetails\<close> always returns one.
\<close>

definition toOptionData :: "contract_row \<Rightarrow> OptionDetails \<Rightarrow> OptionData" where
  "toOptionData option details =
     \<lparr>symbol = contract_ticker option,
      underlyingSymbol = underlying_ticker option,
      expirationDate = expiration_date option,
      strikePrice = strike_price option,
      optionType = toLowerCase (contract_type option),
      lastPrice = or_else (Some (details_lastPrice details)) 0,
      bidPrice = or_else (Some (details_bidPrice details)) 0,
      askPrice = or_else (Some (details_askPrice details)) 0,
      openInterest = or_else (Some (details_openInterest details)) 0,
      volume = or_else (Some (details_volume details)) 0,
      impliedVolatility = or_else (Some (details_impliedVolatility details)) 0,
      greeks = details_greeks details\<rparr>"

text \<open>
  \<^verbatim>\<open>if (!expDate)\<close>: the argument is falsy when it is omitted and when it is the
  empty string; the expiration is then the first of \<open>fetchOptionsExpirations\<close>.
\<close>

definition firstExpiration :: "provider \<Rightarrow> string \<Rightarrow> string client" where
  "firstExpiration p underlying =
     await (fetchOptionsExpirations p underlying) (\<lambda>expirations.
       case expirations of
         first # _ \<Rightarrow> resolve first
       | [] \<Rightarrow> throw (Error ''No expiration dates available''))"

definition resolveExpiration :: "provider \<Rightarrow> string \<Rightarrow> string option \<Rightarrow> string client" where
  "resolveExpiration p underlying requested =
     (case requested of
        None \<Rightarrow> firstExpiration p underlying
      | Some d \<Rightarrow> if d = [] then firstExpiration p underlying else resolve d)"

definition fetchOptionsData :: "provider \<Rightarrow> string \<Rightarrow> string option \<Rightarrow> OptionData list client" where
  "fetchOptionsData p underlying requested =
     try_catch
       (await (resolveExpiration p underlying requested) (\<lambda>expDate.
        await (axios_get (Contracts underlying (Some expDate))
                 (get_contracts p underlying (Some expDate)))
          (\<lambda>response.
             case results response of
               Some (r # rs) \<Rightarrow>
                 promise_all
                   (map (\<lambda>option.
                           await (fetchOptionDetails p (contract_ticker option)) (\<lambda>details.
                             resolve (toOptionData option details)))
                      (r # rs))
             | _ \<Rightarrow> resolve [])))
       (\<lambda>error. throw error)"

section \<open>The options chain screen (OptionsChainScreen)\<close>

subsection \<open>Push updates\<close>

text \<open>
  A push update is a partial \<open>OptionData\<close>: every field may be absent.
  \<^verbatim>\<open>{ ...opt, ...update }\<close> takes each field from the update when it is there and
  from the record otherwise; \<open>greeks\<close> is replaced as a whole.
\<close>

record OptionUpdate =
  upd_symbol :: "string option"
  upd_underlyingSymbol :: "string option"
  upd_expirationDate :: "string option"
  upd_strikePrice :: "real option"
  upd_optionType :: "string option"
  upd_lastPrice :: "real option"
  upd_bidPrice :: "real option"
  upd_askPrice :: "real option"
  upd_openInterest :: "real option"
  upd_volume :: "real option"
  upd_impliedVolatility :: "real option"
  upd_greeks :: "OptionGreeks option"

definition spread :: "OptionData \<Rightarrow> OptionUpdate \<Rightarrow> OptionData" where
  "spread opt update =
     \<lparr>symbol = (case upd_symbol update of Some v \<Rightarrow> v | None \<Rightarrow> symbol opt),
      underlyingSymbol =
        (case upd_underlyingSymbol update of Some v \<Rightarrow> v | None \<Rightarrow> underlyingSymbol opt),
      expirationDate =
        (case upd_expirationDate update of Some v \<Rightarrow> v | None \<Rightarrow> expirationDate opt),
      strikePrice = (case upd_strikePrice update of Some v \<Rightarrow> v | None \<Rightarrow> strikePrice opt),
      optionType = (case upd_optionType update of Some v \<Rightarrow> v | None \<Rightarrow> optionType opt),
      lastPrice = (case upd_lastPrice update of Some v \<Rightarrow> v | None \<Rightarrow> lastPrice opt),
      bidPrice = (case upd_bidPrice update of Some v \<Rightarrow> v | None \<Rightarrow> bidPrice opt),
      askPrice = (case upd_askPrice update of Some v \<Rightarrow> v | None \<Rightarrow> askPrice opt),
      openInterest = (case upd_openInterest update of Some v \<Rightarrow> v | None \<Rightarrow> openInterest opt),
      volume = (case upd_volume update of Some v \<Rightarrow> v | None \<Rightarrow> volume opt),
      impliedVolatility =
        (case upd_impliedVolatility update of Some v \<Rightarrow> v | None \<Rightarrow> impliedVolatility opt),
      greeks = (case upd_greeks update of Some v \<Rightarrow> v | None \<Rightarrow> greeks opt)\<rparr>"

text \<open>
  The state updater that the callback of one contract subscription passes to
  \<^verbatim>\<open>setOptions\<close>; \<open>subscribed\<close> is \<^verbatim>\<open>option.symbol\<close> of the closure.
\<close>

definition mergeUpdate :: "string \<Rightarrow> OptionUpdate \<Rightarrow> OptionData list \<Rightarrow> OptionData list" where
  "mergeUpdate subscribed update prevOptions =
     map (\<lambda>opt. if symbol opt = subscribed then spread opt update else opt) prevOptions"

subsection \<open>The state of the screen and of the push channel\<close>

text \<open>
  A stop capability is a closure \<^verbatim>\<open>() => void\<close>; here it is a handle (a number), and
  calling it appends \<open>Stopped\<close> to the log of the push channel. The registry
  \<^verbatim>\<open>optionUnsubscribesRef\<close> is a JavaScript \<^verbatim>\<open>Map\<close>: an association list in insertion
  order, where \<^verbatim>\<open>set\<close> on a key that is present replaces its value in place.
\<close>

datatype channel_event = Opened nat string | Stopped nat

record screen =
  stockPrice :: "real option"
  expirationDates :: "string list"
  selectedExpiration :: string
  options :: "OptionData list"
  loading :: bool
  loadingOptions :: bool
  stockPriceUnsubscribeRef :: "nat option"
  optionUnsubscribesRef :: "(string \<times> nat) list"
  alerts :: "string list"
  next_handle :: nat
  channel :: "channel_event list"

definition initial_screen :: screen where
  "initial_screen =
     \<lparr>stockPrice = None,
      expirationDates = [],
      selectedExpiration = [],
      options = [],
      loading = True,
      loadingOptions = False,
      stockPriceUnsubscribeRef = None,
      optionUnsubscribesRef = [],
      alerts = [],
      next_handle = 0,
      channel = []\<rparr>"

fun map_set :: "'k \<Rightarrow> 'v \<Rightarrow> ('k \<times> 'v) list \<Rightarrow> ('k \<times> 'v) list" where
  "map_set k v [] = [(k, v)]"
| "map_set k v ((k', v') # m) = (if k' = k then (k, v) # m else (k', v') # map_set k v m)"

text \<open>
  Modelled from the spec: \<^verbatim>\<open>subscribeToStockPrice\<close> and \<^verbatim>\<open>subscribeToOptionData\<close> are
  imported by the screen but are not among the sources. By the spec each opens a push
  channel for the symbol and returns the stop capability of that subscription; the model
  returns a fresh handle and logs \<open>Opened\<close>.
\<close>

definition subscribe :: "string \<Rightarrow> screen \<Rightarrow> nat \<times> screen" where
  "subscribe sy s =
     (next_handle s,
      s\<lparr>next_handle := Suc (next_handle s),
        channel := channel s @ [Opened (next_handle s) sy]\<rparr>)"

subsection \<open>loadOptionsData\<close>

text \<open>
  \<^verbatim>\<open>optionUnsubscribesRef.current.forEach(unsubscribe => unsubscribe())\<close> followed by
  \<^verbatim>\<open>.clear()\<close>.
\<close>

definition stopAll :: "screen \<Rightarrow> screen" where
  "stopAll s =
     s\<lparr>channel := channel s @ map (\<lambda>(k, unsubscribe). Stopped unsubscribe) (optionUnsubscribesRef s),
       optionUnsubscribesRef := []\<rparr>"

text \<open>
  The function runs up to its first \<^verbatim>\<open>await\<close> when it is called: that is
  \<open>loadOptionsData_begin\<close>. The rest runs when the fetch has settled, with its outcome:
  that is \<open>loadOptionsData_resume\<close>. Other events of the screen can happen between the
  two.
\<close>

definition loadOptionsData_begin :: "screen \<Rightarrow> screen" where
  "loadOptionsData_begin s = stopAll (s\<lparr>loadingOptions := True\<rparr>)"

definition subscribeOption :: "OptionData \<Rightarrow> screen \<Rightarrow> screen" where
  "subscribeOption option s =
     (let (unsubscribe, s') = subscribe (symbol option) s
      in s'\<lparr>optionUnsubscribesRef := map_set (symbol option) unsubscribe (optionUnsubscribesRef s')\<rparr>)"

definition loadOptionsData_resume :: "error + OptionData list \<Rightarrow> screen \<Rightarrow> screen" where
  "loadOptionsData_resume outcome s =
     (case outcome of
        Inr optionsData \<Rightarrow>
          (fold subscribeOption optionsData (s\<lparr>options := optionsData\<rparr>))\<lparr>loadingOptions := False\<rparr>
      | Inl e \<Rightarrow>
          s\<lparr>alerts := alerts s @ [''Failed to load options chain''], loadingOptions := False\<rparr>)"

text \<open>A call of \<open>loadOptionsData\<close> during which no other event of the screen happens.\<close>

definition loadOptionsData :: "provider \<Rightarrow> string \<Rightarrow> string \<Rightarrow> screen \<Rightarrow> screen" where
  "loadOptionsData p underlying expDate s =
     loadOptionsData_resume (fst (fetchOptionsData p underlying (Some expDate)))
       (loadOptionsData_begin s)"

definition handleExpirationChange :: "provider \<Rightarrow> string \<Rightarrow> string \<Rightarrow> screen \<Rightarrow> screen" where
  "handleExpirationChange p underlying expDate s =
     loadOptionsData p underlying expDate (s\<lparr>selectedExpiration := expDate\<rparr>)"

text \<open>The callback of the subscription for \<open>subscribed\<close> is invoked with a push update.\<close>

definition onOptionUpdate :: "string \<Rightarrow> OptionUpdate \<Rightarrow> screen \<Rightarrow> screen" where
  "onOptionUpdate subscribed update s = s\<lparr>options := mergeUpdate subscribed update (options s)\<rparr>"

subsection \<open>Mount and unmount\<close>

text \<open>\<open>loadInitialData\<close>, run with no other event of the screen in between.\<close>

definition loadInitialData :: "provider \<Rightarrow> string \<Rightarrow> screen \<Rightarrow> screen" where
  "loadInitialData p underlying s =
     (let (unsubscribe, s1) = subscribe underlying s;
          s2 = s1\<lparr>stockPriceUnsubscribeRef := Some unsubscribe\<rparr>
      in (case fst (fetchStockPrice p underlying) of
            Inl e \<Rightarrow> s2\<lparr>alerts := alerts s2 @ [''Failed to load options data''], loading := False\<rparr>
          | Inr stockData \<Rightarrow>
              (let s3 = s2\<lparr>stockPrice := Some (currentPrice stockData)\<rparr>
               in (case fst (fetchOptionsExpirations p underlying) of
                     Inl e \<Rightarrow>
                       s3\<lparr>alerts := alerts s3 @ [''Failed to load options data''], loading := False\<rparr>
                   | Inr dates \<Rightarrow>
                       (let s4 = s3\<lparr>expirationDates := dates\<rparr>
                        in (case dates of
                              first # _ \<Rightarrow>
                                (loadOptionsData p underlying first
                                   (s4\<lparr>selectedExpiration := first\<rparr>))\<lparr>loading := False\<rparr>
                            | [] \<Rightarrow> s4\<lparr>loading := False\<rparr>))))))"

text \<open>The cleanup function that the effect returns.\<close>

definition cleanup :: "screen \<Rightarrow> screen" where
  "cleanup s =
     stopAll
       (case stockPriceUnsubscribeRef s of
          Some unsubscribe \<Rightarrow>
            s\<lparr>channel := channel s @ [Stopped unsubscribe], stockPriceUnsubscribeRef := None\<rparr>
        | None \<Rightarrow> s)"

text \<open>
  One visit of the screen in which every load has finished before the next selection and
  before the unmount: mount, the selections of the user in order, unmount.
\<close>

definition visit :: "provider \<Rightarrow> string \<Rightarrow> string list \<Rightarrow> screen" where
  "visit p underlying selections =
     cleanup (fold (handleExpirationChange p underlying) selections
                (loadInitialData p underlying initial_screen))"

subsection \<open>The displayed rows\<close>

text \<open>
  \<^verbatim>\<open>String.prototype.includes\<close>: the argument occurs as a contiguous substring.
\<close>

fun includes_str :: "string \<Rightarrow> string \<Rightarrow> bool" where
  "includes_str [] t = (t = [])"
| "includes_str (ch # str) t = (prefix t (ch # str) \<or> includes_str str t)"

datatype option_kind = Call | Put

fun kind_name :: "option_kind \<Rightarrow> string" where
  "kind_name Call = ''call''"
| "kind_name Put = ''put''"

text \<open>
  \<^verbatim>\<open>Array.prototype.sort(compare)\<close> is stable, and with a comparator that is consistent
  it returns the stable sort: here by insertion from the right. An element goes before
  the first element that the comparator does not put before it.
\<close>

fun insert_by :: "('a \<Rightarrow> 'a \<Rightarrow> real) \<Rightarrow> 'a \<Rightarrow> 'a list \<Rightarrow> 'a list" where
  "insert_by compare x [] = [x]"
| "insert_by compare x (y # ys) =
     (if compare x y \<le> 0 then x # y # ys else y # insert_by compare x ys)"

definition sort_by :: "('a \<Rightarrow> 'a \<Rightarrow> real) \<Rightarrow> 'a list \<Rightarrow> 'a list" where
  "sort_by compare xs = foldr (insert_by compare) xs []"

text \<open>
  \<open>toString\<close> is \<^verbatim>\<open>Number.prototype.toString\<close>, a parameter. The predicate is the
  callback of \<^verbatim>\<open>options.filter\<close>.
\<close>

definition shown :: "(real \<Rightarrow> string) \<Rightarrow> option_kind \<Rightarrow> string \<Rightarrow> OptionData \<Rightarrow> bool" where
  "shown toString kind filterText option =
     (optionType option = kind_name kind \<and>
      (filterText = [] \<or>
       includes_str (toString (strikePrice option)) filterText \<or>
       includes_str (toString (openInterest option)) filterText))"

definition filteredOptions ::
  "(real \<Rightarrow> string) \<Rightarrow> OptionData list \<Rightarrow> option_kind \<Rightarrow> string \<Rightarrow> OptionData list" where
  "filteredOptions toString opts kind filterText =
     sort_by (\<lambda>a b. strikePrice a - strikePrice b) (filter (shown toString kind filterText) opts)"

text \<open>
  The same expression on a store of arrays, to follow which array is written:
  \<^verbatim>\<open>filter\<close> allocates a new array and leaves its receiver as it is,
  \<^verbatim>\<open>sort\<close> writes the sorted elements into its receiver and returns it.
\<close>

record 'a store =
  cells :: "nat \<Rightarrow> 'a list"
  fresh :: nat

definition array_filter :: "('a \<Rightarrow> bool) \<Rightarrow> nat \<Rightarrow> 'a store \<Rightarrow> nat \<times> 'a store" where
  "array_filter f a h =
     (fresh h, h\<lparr>cells := (cells h)(fresh h := filter f (cells h a)), fresh := Suc (fresh h)\<rparr>)"

definition array_sort :: "('a \<Rightarrow> 'a \<Rightarrow> real) \<Rightarrow> nat \<Rightarrow> 'a store \<Rightarrow> nat \<times> 'a store" where
  "array_sort compare a h = (a, h\<lparr>cells := (cells h)(a := sort_by compare (cells h a))\<rparr>)"

definition filteredOptions_store ::
  "(real \<Rightarrow> string) \<Rightarrow> nat \<Rightarrow> option_kind \<Rightarrow> string \<Rightarrow> OptionData store \<Rightarrow> nat \<times> OptionData store"
  where
  "filteredOptions_store toString opts kind filterText h =
     (let (filtered, h1) = array_filter (shown toString kind filterText) opts h
      in array_sort (\<lambda>a b. strikePrice a - strikePrice b) filtered h1)"

section \<open>Example inputs\<close>

text \<open>
  A provider that rejects every request, and one that lists six contracts of AAPL over
  three expirations, quotes every contract and fails the last-trade request of one.
\<close>

definition offline :: provider where
  "offline =
     \<lparr>get_prev_agg = (\<lambda>s. Inl (RequestFailed ''Network Error'')),
      get_tickers = (\<lambda>q. Inl (RequestFailed ''Network Error'')),
      get_agg_range = (\<lambda>s ts f t l. Inl (RequestFailed ''Network Error'')),
      get_contracts = (\<lambda>u e. Inl (RequestFailed ''Network Error'')),
      get_last_trade = (\<lambda>s. Inl (RequestFailed ''Network Error'')),
      get_snapshot = (\<lambda>s. Inl (RequestFailed ''Network Error'')),
      get_market_status = Inl (RequestFailed ''Network Error'')\<rparr>"

definition bar_100_110 :: agg where
  "bar_100_110 = \<lparr>agg_t = 0, agg_o = 100, agg_h = 120, agg_l = 90, agg_c = 110, agg_v = 5000\<rparr>"

definition listed :: "string \<Rightarrow> string \<Rightarrow> real \<Rightarrow> string \<Rightarrow> contract_row" where
  "listed tkr expiry strike kind =
     \<lparr>contract_ticker = tkr, underlying_ticker = ''AAPL'', expiration_date = expiry,
      strike_price = strike, contract_type = kind\<rparr>"

definition aapl_listing :: "contract_row list" where
  "aapl_listing =
     [listed ''C150'' ''2024-03-15'' 150 ''call'',
      listed ''C145'' ''2024-01-19'' 145 ''call'',
      listed ''P140'' ''2024-01-19'' 140 ''put'',
      listed ''C155'' ''2024-03-15'' 155 ''call'',
      listed ''C140'' ''2024-01-19'' 140 ''CALL'',
      listed ''C160'' ''2024-02-16'' 160 ''call'']"

definition quoted :: snapshot where
  "quoted =
     \<lparr>snap_bid = Some \<lparr>side_p = Some 2\<rparr>,
      snap_ask = Some \<lparr>side_p = Some 3\<rparr>,
      open_interest = Some 1200,
      snap_day = Some \<lparr>day_v = Some 300\<rparr>,
      implied_volatility = None,
      snap_greeks = Some \<lparr>snap_delta = Some (1/2), snap_gamma = Some (1/10),
                          snap_theta = Some (- 1/20), snap_vega = Some (1/5),
                          snap_rho = None\<rparr>\<rparr>"

definition polygon :: provider where
  "polygon =
     \<lparr>get_prev_agg = (\<lambda>s. Inr \<lparr>results = Some [bar_100_110]\<rparr>),
      get_tickers = (\<lambda>q. Inr \<lparr>results = None\<rparr>),
      get_agg_range = (\<lambda>s ts f t l. Inr \<lparr>results = None\<rparr>),
      get_contracts =
        (\<lambda>u e. Inr \<lparr>results =
                      Some (case e of
                              None \<Rightarrow> aapl_listing
                            | Some d \<Rightarrow> filter (\<lambda>r. expiration_date r = d) aapl_listing)\<rparr>),
      get_last_trade =
        (\<lambda>s. if s = ''P140'' then Inl (RequestFailed ''timeout'')
              else Inr \<lparr>results = Some \<lparr>trade_p = Some 5\<rparr>\<rparr>),
      get_snapshot = (\<lambda>s. Inr \<lparr>results = Some quoted\<rparr>),
      get_market_status = Inl (RequestFailed ''Network Error'')\<rparr>"

text \<open>
  The contracts that \<open>fetchOptionsData\<close> builds from that provider: an enriched one
  carries the quote of the provider, a defaulted one the zero defaults.
\<close>

definition enriched :: "string \<Rightarrow> string \<Rightarrow> string \<Rightarrow> real \<Rightarrow> OptionData" where
  "enriched sy expiry kind strike =
     \<lparr>symbol = sy, underlyingSymbol = ''AAPL'', expirationDate = expiry, strikePrice = strike,
      optionType = kind, lastPrice = 5, bidPrice = 2, askPrice = 3, openInterest = 1200,
      volume = 300, impliedVolatility = 0,
      greeks = \<lparr>delta = 1/2, gamma = 1/10, theta = - 1/20, vega = 1/5, rho = Some 0\<rparr>\<rparr>"

definition defaulted :: "string \<Rightarrow> string \<Rightarrow> string \<Rightarrow> real \<Rightarrow> OptionData" where
  "defaulted sy expiry kind strike =
     \<lparr>symbol = sy, underlyingSymbol = ''AAPL'', expirationDate = expiry, strikePrice = strike,
      optionType = kind, lastPrice = 0, bidPrice = 0, askPrice = 0, openInterest = 0,
      volume = 0, impliedVolatility = 0,
      greeks = \<lparr>delta = 0, gamma = 0, theta = 0, vega = 0, rho = Some 0\<rparr>\<rparr>"

definition chain_0119 :: "OptionData list" where
  "chain_0119 =
     [enriched ''C145'' ''2024-01-19'' ''call'' 145,
      defaulted ''P140'' ''2024-01-19'' ''put'' 140,
      enriched ''C140'' ''2024-01-19'' ''call'' 140]"

text \<open>A push update that carries a last price only.\<close>

definition price_update :: "real \<Rightarrow> OptionUpdate" where
  "price_update v =
     \<lparr>upd_symbol = None, upd_underlyingSymbol = None, upd_expirationDate = None,
      upd_strikePrice = None, upd_optionType = None, upd_lastPrice = Some v,
      upd_bidPrice = None, upd_askPrice = None, upd_openInterest = None, upd_volume = None,
      upd_impliedVolatility = None, upd_greeks = None\<rparr>"

text \<open>A push update that carries every field.\<close>

definition full_update :: OptionUpdate where
  "full_update =
     \<lparr>upd_symbol = Some ''P140'', upd_underlyingSymbol = Some ''AAPL1'',
      upd_expirationDate = Some ''2024-01-26'', upd_strikePrice = Some 141,
      upd_optionType = Some ''call'', upd_lastPrice = Some 7, upd_bidPrice = Some 6,
      upd_askPrice = Some 8, upd_openInterest = Some 50, upd_volume = Some 20,
      upd_impliedVolatility = Some (3/10),
      upd_greeks = Some \<lparr>delta = - 2/5, gamma = 1/20, theta = - 1/50, vega = 1/10, rho = None\<rparr>\<rparr>"

text \<open>The decimal rendering of the numbers that occur in the examples.\<close>

definition render :: "real \<Rightarrow> string" where
  "render x =
     (if x = 140 then ''140'' else if x = 145 then ''145''
      else if x = 1200 then ''1200'' else ''0'')"

text \<open>
  The screen after mount with the example provider, and the screen that was unmounted
  while the fetch for a newly selected expiration was pending: the user selects
  2024-02-16, leaves the screen, and the fetch settles afterwards.
\<close>

definition mounted :: screen where
  "mounted = loadInitialData polygon ''AAPL'' initial_screen"

definition unmounted_while_loading :: screen where
  "unmounted_while_loading =
     loadOptionsData_resume (fst (fetchOptionsData polygon ''AAPL'' (Some ''2024-02-16'')))
       (cleanup (loadOptionsData_begin mounted))"

section \<open>The accounting of stop capabilities\<close>

text \<open>
  The invariant behind the cleanup of subscriptions. \<open>opens h c\<close> counts the
  subscriptions that the log \<open>c\<close> opened with handle \<open>h\<close>. A screen is accounted when
  every handle was opened at most once, handles not yet issued were never opened, and
  every opened handle is either stopped once, or held once in the registry, or held as
  the stop capability of the stock subscription.
\<close>

definition opens :: "nat \<Rightarrow> channel_event list \<Rightarrow> nat" where
  "opens h c = length (filter (\<lambda>e. case e of Opened h' sy \<Rightarrow> h' = h | Stopped h' \<Rightarrow> False) c)"

definition accounted :: "screen \<Rightarrow> bool" where
  "accounted s =
     (\<forall>h. opens h (channel s) =
            count_list (channel s) (Stopped h) +
            count_list (map snd (optionUnsubscribesRef s)) h +
            (if stockPriceUnsubscribeRef s = Some h then 1 else 0) \<and>
          opens h (channel s) \<le> 1 \<and>
          (next_handle s \<le> h \<longrightarrow> opens h (channel s) = 0))"

section \<open>Properties of the client\<close>

lemmas client_defs = resolve_def throw_def axios_get_def await_def try_catch_def

text \<open>
  C7. \<open>fetchStockPrice\<close> issues exactly one request, the previous-close aggregate of the
  symbol. It throws when the request fails and when the reply has no result row
  (\<open>results\<close> absent or empty). When there is a row, the quote has the row's close as
  current price, its open as previous close, close minus open as change, and the change
  divided by the open, times 100, as percent change; the division is JavaScript's, so the
  percent is not a finite number when the open is zero.
\<close>

theorem fetchStockPrice_quote:
  "snd (fetchStockPrice p stock) = {#PrevAgg stock#} \<and>
   (\<forall>e. get_prev_agg p stock = Inl e \<longrightarrow> fst (fetchStockPrice p stock) = Inl e) \<and>
   (\<forall>r. get_prev_agg p stock = Inr r \<and> (results r = None \<or> results r = Some []) \<longrightarrow>
        fst (fetchStockPrice p stock) = Inl (Error ''No data available'')) \<and>
   (\<forall>r row rest. get_prev_agg p stock = Inr r \<and> results r = Some (row # rest) \<longrightarrow>
        fst (fetchStockPrice p stock) =
          Inr \<lparr>ticker = stock,
               currentPrice = agg_c row,
               previousClose = agg_o row,
               change = agg_c row - agg_o row,
               changePercent =
                 (if agg_o row = 0 then NonFinite
                  else Finite ((agg_c row - agg_o row) / agg_o row * 100))\<rparr>)"
  by (auto simp: fetchStockPrice_def client_defs js_div_def Let_def
      split: sum.splits option.splits list.splits)

theorem fetchStockPrice_quote_witness:
  "fetchStockPrice polygon ''AAPL'' =
     (Inr \<lparr>ticker = ''AAPL'', currentPrice = 110, previousClose = 100, change = 10,
           changePercent = Finite 10\<rparr>, {#PrevAgg ''AAPL''#}) \<and>
   fetchStockPrice (offline\<lparr>get_prev_agg := \<lambda>s. Inr \<lparr>results = Some []\<rparr>\<rparr>) ''AAPL'' =
     (Inl (Error ''No data available''), {#PrevAgg ''AAPL''#}) \<and>
   fetchStockPrice offline ''AAPL'' = (Inl (RequestFailed ''Network Error''), {#PrevAgg ''AAPL''#})"
  using fetchStockPrice_quote [of polygon "''AAPL''"]
        fetchStockPrice_quote [of "offline\<lparr>get_prev_agg := \<lambda>s. Inr \<lparr>results = Some []\<rparr>\<rparr>" "''AAPL''"]
        fetchStockPrice_quote [of offline "''AAPL''"]
  by (simp add: prod_eq_iff polygon_def offline_def bar_100_110_def)

lemma indexOf_nth:
  "indexOf xs v = int i \<Longrightarrow> i < length xs \<and> xs ! i = v"
proof (induction xs arbitrary: i)
  case Nil
  then show ?case by simp
next
  case (Cons x xs)
  show ?case
  proof (cases "x = v")
    case True
    with Cons.prems show ?thesis by simp
  next
    case False
    with Cons.prems have pos: "\<not> indexOf xs v < 0" and eq: "indexOf xs v + 1 = int i"
      by (auto simp: Let_def split: if_splits)
    then obtain j where j: "i = Suc j" "indexOf xs v = int j"
      by (cases i) auto
    with Cons.IH [of j] show ?thesis by simp
  qed
qed

lemma indexOf_mem:
  "v \<in> set xs \<Longrightarrow> \<exists>i. indexOf xs v = int i"
proof (induction xs)
  case Nil
  then show ?case by simp
next
  case (Cons x xs)
  show ?case
  proof (cases "x = v")
    case True
    then show ?thesis by simp
  next
    case False
    with Cons obtain i where "indexOf xs v = int i" by auto
    with False have "indexOf (x # xs) v = int (Suc i)" by (simp add: Let_def)
    then show ?thesis by blast
  qed
qed

lemma zip_upt_nth: "zip xs [0..<length xs] = map (\<lambda>i. (xs ! i, i)) [0..<length xs]"
  by (rule nth_equalityI) auto

lemma filter_indexed_nth:
  "filter_indexed f self =
     map (\<lambda>i. self ! i) (filter (\<lambda>i. f (self ! i) i self) [0..<length self])"
  unfolding filter_indexed_def zip_upt_nth
  by (simp add: filter_map comp_def)

lemma first_occurrences_distinct:
  "distinct (filter_indexed (\<lambda>v index self. indexOf self v = int index) xs)"
proof -
  let ?keep = "filter (\<lambda>i. indexOf xs (xs ! i) = int i) [0..<length xs]"
  have "inj_on (\<lambda>i. xs ! i) (set ?keep)"
  proof (rule inj_onI)
    fix i j
    assume "i \<in> set ?keep" "j \<in> set ?keep" "xs ! i = xs ! j"
    then have "int i = indexOf xs (xs ! i)" "int j = indexOf xs (xs ! i)" by simp_all
    then show "i = j" by simp
  qed
  then have "distinct (map (\<lambda>i. xs ! i) ?keep)"
    by (simp add: distinct_map)
  then show ?thesis by (simp add: filter_indexed_nth)
qed

lemma filter_indexed_Nil: "filter_indexed f [] = []"
  by (simp add: filter_indexed_def)

lemma first_occurrences_set:
  "set (filter_indexed (\<lambda>v index self. indexOf self v = int index) xs) = set xs"
proof
  show "set (filter_indexed (\<lambda>v index self. indexOf self v = int index) xs) \<subseteq> set xs"
    unfolding filter_indexed_nth by auto
next
  show "set xs \<subseteq> set (filter_indexed (\<lambda>v index self. indexOf self v = int index) xs)"
  proof
    fix v assume "v \<in> set xs"
    then obtain i where i: "indexOf xs v = int i" using indexOf_mem by fastforce
    then have "i < length xs" "xs ! i = v" using indexOf_nth by fastforce+
    with i show "v \<in> set (filter_indexed (\<lambda>v index self. indexOf self v = int index) xs)"
      unfolding filter_indexed_nth by force
  qed
qed

lemma fetchOptionsExpirations_eq:
  "fetchOptionsExpirations p underlying =
     ((case get_contracts p underlying None of
         Inl e \<Rightarrow> Inl e
       | Inr response \<Rightarrow>
           (case results response of
              None \<Rightarrow> Inr []
            | Some rows \<Rightarrow>
                Inr (sort (filter_indexed (\<lambda>v index self. indexOf self v = int index)
                             (map expiration_date rows))))),
      {#Contracts underlying None#})"
  by (auto simp: fetchOptionsExpirations_def client_defs filter_indexed_def
      split: sum.splits option.splits list.splits)

text \<open>
  C3. Whatever the order of the rows of the listing and however often an expiration date
  repeats in it, \<open>fetchOptionsExpirations\<close> returns the dates of the listing without
  duplicates and strictly ascending in the lexicographic order of strings. It returns
  the empty list when the reply has no contracts (\<open>results\<close> absent or empty), and it
  throws the error of the request when the request fails.
\<close>

theorem fetchOptionsExpirations_sorted_unique:
  "(\<forall>e. get_contracts p underlying None = Inl e \<longrightarrow>
        fst (fetchOptionsExpirations p underlying) = Inl e) \<and>
   (\<forall>r. get_contracts p underlying None = Inr r \<and> (results r = None \<or> results r = Some []) \<longrightarrow>
        fst (fetchOptionsExpirations p underlying) = Inr []) \<and>
   (\<forall>r rows. get_contracts p underlying None = Inr r \<and> results r = Some rows \<longrightarrow>
        (\<exists>dates. fst (fetchOptionsExpirations p underlying) = Inr dates \<and>
                 sorted_wrt (<) dates \<and> distinct dates \<and>
                 set dates = set (map expiration_date rows)))"
  by (auto simp: fetchOptionsExpirations_eq strict_sorted_iff
        first_occurrences_distinct first_occurrences_set filter_indexed_Nil simp del: set_map)


lemma fetchOptionDetails_eq:
  "fst (fetchOptionDetails p optionSymbol) =
     Inr (case get_last_trade p optionSymbol of
            Inl e \<Rightarrow> defaultDetails
          | Inr tradeResponse \<Rightarrow>
              (case get_snapshot p optionSymbol of
                 Inl e \<Rightarrow> defaultDetails
               | Inr snapshotResponse \<Rightarrow> extractDetails tradeResponse snapshotResponse))"
  by (simp add: fetchOptionDetails_def client_defs split: sum.splits)

lemma promise_all_resolved:
  "(\<And>x. x \<in> set xs \<Longrightarrow> fst (f x) = Inr (g x)) \<Longrightarrow>
   fst (promise_all (map f xs)) = Inr (map g xs)"
  by (induction xs) auto

lemma enrich_resolved:
  "fst (await (fetchOptionDetails p (contract_ticker row))
          (\<lambda>details. resolve (toOptionData row details))) =
   Inr (toOptionData row (projr (fst (fetchOptionDetails p (contract_ticker row)))))"
  by (simp add: await_def resolve_def fetchOptionDetails_eq)

lemma fst_await: "fst (await m k) = (case fst m of Inl e \<Rightarrow> Inl e | Inr v \<Rightarrow> fst (k v))"
  by (simp add: await_def split: sum.splits)

lemma fst_rethrow: "fst (try_catch body (\<lambda>error. throw error)) = fst body"
  by (simp add: try_catch_def throw_def split: sum.splits)

lemma resolveExpiration_eq:
  "fst (resolveExpiration p underlying requested) =
     (if requested = None \<or> requested = Some []
      then (case fst (fetchOptionsExpirations p underlying) of
              Inl e \<Rightarrow> Inl e
            | Inr [] \<Rightarrow> Inl (Error ''No expiration dates available'')
            | Inr (first # rest) \<Rightarrow> Inr first)
      else Inr (case requested of Some d \<Rightarrow> d | None \<Rightarrow> []))"
  by (auto simp: resolveExpiration_def firstExpiration_def fst_await resolve_def throw_def
      split: option.splits sum.splits list.splits)

lemma listing_resolved:
  "fst (case rows of
          [] \<Rightarrow> resolve []
        | r # rs \<Rightarrow>
            promise_all
              (map (\<lambda>option. await (fetchOptionDetails p (contract_ticker option))
                               (\<lambda>details. resolve (toOptionData option details)))
                 (r # rs))) =
   Inr (map (\<lambda>row. toOptionData row (projr (fst (fetchOptionDetails p (contract_ticker row)))))
          rows)"
proof (cases rows)
  case Nil
  then show ?thesis by (simp add: resolve_def)
next
  case (Cons r rs)
  have "fst (promise_all
               (map (\<lambda>option. await (fetchOptionDetails p (contract_ticker option))
                                (\<lambda>details. resolve (toOptionData option details))) rows)) =
        Inr (map (\<lambda>row. toOptionData row
                           (projr (fst (fetchOptionDetails p (contract_ticker row))))) rows)"
    by (rule promise_all_resolved) (rule enrich_resolved)
  with Cons show ?thesis by simp
qed

lemma fetchOptionsData_eq:
  "fst (fetchOptionsData p underlying requested) =
     (case fst (resolveExpiration p underlying requested) of
        Inl e \<Rightarrow> Inl e
      | Inr d \<Rightarrow>
          (case get_contracts p underlying (Some d) of
             Inl e \<Rightarrow> Inl e
           | Inr response \<Rightarrow>
               (case results response of
                  None \<Rightarrow> Inr []
                | Some rows \<Rightarrow>
                    Inr (map (\<lambda>row. toOptionData row
                                       (projr (fst (fetchOptionDetails p (contract_ticker row)))))
                           rows))))"
proof -
  have body: "fst (case results response of
                     None \<Rightarrow> resolve []
                   | Some [] \<Rightarrow> resolve []
                   | Some (r # rs) \<Rightarrow>
                       promise_all
                         (map (\<lambda>option. await (fetchOptionDetails p (contract_ticker option))
                                          (\<lambda>details. resolve (toOptionData option details)))
                            (r # rs))) =
              (case results response of
                 None \<Rightarrow> Inr []
               | Some rows \<Rightarrow>
                   Inr (map (\<lambda>row. toOptionData row
                                      (projr (fst (fetchOptionDetails p (contract_ticker row)))))
                          rows))" for response :: "contract_row list response"
    using listing_resolved [of p]
    by (cases "results response") (simp_all add: resolve_def split: list.splits)
  show ?thesis
    unfolding fetchOptionsData_def fst_rethrow fst_await
    by (simp add: axios_get_def body split: sum.splits)
qed

text \<open>
  C1. Let the listing for the expiration in use return \<open>rows\<close>. Then \<open>fetchOptionsData\<close>
  returns, without throwing, one contract per row and in the order of the rows, with the
  identifying fields of its row. Where the last-trade or the snapshot request of a row
  fails, the contract has \<open>lastPrice\<close>, \<open>bidPrice\<close>, \<open>askPrice\<close>, \<open>openInterest\<close>,
  \<open>volume\<close> and \<open>impliedVolatility\<close> zero and all five Greeks zero. Where both requests
  succeed, the contract carries the details extracted from the two replies.
\<close>

theorem fetchOptionsData_enrichment_failure:
  "fst (resolveExpiration p underlying requested) = Inr d \<and>
   get_contracts p underlying (Some d) = Inr response \<and> results response = Some rows \<longrightarrow>
   (\<exists>opts. fst (fetchOptionsData p underlying requested) = Inr opts \<and>
      length opts = length rows \<and>
      (\<forall>i < length rows.
         symbol (opts ! i) = contract_ticker (rows ! i) \<and>
         underlyingSymbol (opts ! i) = underlying_ticker (rows ! i) \<and>
         expirationDate (opts ! i) = expiration_date (rows ! i) \<and>
         strikePrice (opts ! i) = strike_price (rows ! i) \<and>
         optionType (opts ! i) = toLowerCase (contract_type (rows ! i)) \<and>
         ((\<exists>e. get_last_trade p (contract_ticker (rows ! i)) = Inl e) \<or>
          (\<exists>e. get_snapshot p (contract_ticker (rows ! i)) = Inl e) \<longrightarrow>
            lastPrice (opts ! i) = 0 \<and> bidPrice (opts ! i) = 0 \<and> askPrice (opts ! i) = 0 \<and>
            openInterest (opts ! i) = 0 \<and> volume (opts ! i) = 0 \<and>
            impliedVolatility (opts ! i) = 0 \<and>
            greeks (opts ! i) = \<lparr>delta = 0, gamma = 0, theta = 0, vega = 0, rho = Some 0\<rparr>) \<and>
         (\<forall>t sn. get_last_trade p (contract_ticker (rows ! i)) = Inr t \<and>
                 get_snapshot p (contract_ticker (rows ! i)) = Inr sn \<longrightarrow>
            opts ! i = toOptionData (rows ! i) (extractDetails t sn))))"
  by (auto simp: fetchOptionsData_eq fetchOptionDetails_eq toOptionData_def defaultDetails_def
        or_else_def split: sum.splits)

text \<open>
  C10. When the expiration argument of \<open>fetchOptionsData\<close> is omitted (or is the empty
  string, which \<^verbatim>\<open>!expDate\<close> treats alike) and the provider lists no contract for the
  underlying, the call throws \<^verbatim>\<open>Error('No expiration dates available')\<close>. When the
  listing for the supplied or resolved expiration has no contract, the call returns the
  empty list and does not throw.
\<close>

theorem fetchOptionsData_empty:
  "(\<forall>r. (requested = None \<or> requested = Some []) \<and> get_contracts p underlying None = Inr r \<and>
         (results r = None \<or> results r = Some []) \<longrightarrow>
       fst (fetchOptionsData p underlying requested) =
         Inl (Error ''No expiration dates available'')) \<and>
   (\<forall>d r. fst (resolveExpiration p underlying requested) = Inr d \<and>
           get_contracts p underlying (Some d) = Inr r \<and>
           (results r = None \<or> results r = Some []) \<longrightarrow>
       fst (fetchOptionsData p underlying requested) = Inr [])"
  by (auto simp: fetchOptionsData_eq resolveExpiration_eq fetchOptionsExpirations_eq
        filter_indexed_Nil)


theorem fetchOptionsData_enrichment_failure_witness:
  "fst (resolveExpiration polygon ''AAPL'' (Some ''2024-01-19'')) = Inr ''2024-01-19'' \<and>
   get_contracts polygon ''AAPL'' (Some ''2024-01-19'') =
     Inr \<lparr>results = Some [listed ''C145'' ''2024-01-19'' 145 ''call'',
                           listed ''P140'' ''2024-01-19'' 140 ''put'',
                           listed ''C140'' ''2024-01-19'' 140 ''CALL'']\<rparr> \<and>
   get_last_trade polygon ''P140'' = Inl (RequestFailed ''timeout'') \<and>
   (\<exists>opts. fst (fetchOptionsData polygon ''AAPL'' (Some ''2024-01-19'')) = Inr opts \<and>
      length opts = 3 \<and>
      map symbol opts = [''C145'', ''P140'', ''C140''] \<and>
      map optionType opts = [''call'', ''put'', ''call''] \<and>
      map lastPrice opts = [5, 0, 5] \<and>
      map bidPrice opts = [2, 0, 2] \<and>
      map askPrice opts = [3, 0, 3] \<and>
      map openInterest opts = [1200, 0, 1200] \<and>
      map volume opts = [300, 0, 300] \<and>
      map impliedVolatility opts = [0, 0, 0] \<and>
      map (delta \<circ> greeks) opts = [1/2, 0, 1/2] \<and>
      greeks (opts ! 1) = \<lparr>delta = 0, gamma = 0, theta = 0, vega = 0, rho = Some 0\<rparr>)"
  using fetchOptionsData_enrichment_failure
          [of polygon "''AAPL''" "Some ''2024-01-19''" "''2024-01-19''"
              "\<lparr>results = Some [listed ''C145'' ''2024-01-19'' 145 ''call'',
                                 listed ''P140'' ''2024-01-19'' 140 ''put'',
                                 listed ''C140'' ''2024-01-19'' 140 ''CALL'']\<rparr>"
              "[listed ''C145'' ''2024-01-19'' 145 ''call'',
                listed ''P140'' ''2024-01-19'' 140 ''put'',
                listed ''C140'' ''2024-01-19'' 140 ''CALL'']"]
  by (simp add: fetchOptionsData_eq resolveExpiration_eq polygon_def aapl_listing_def listed_def
        fetchOptionDetails_eq toOptionData_def extractDetails_def defaultDetails_def quoted_def
        or_else_def toLowerCase_def lower_char_def)

theorem fetchOptionsExpirations_sorted_unique_witness:
  "get_contracts polygon ''AAPL'' None = Inr \<lparr>results = Some aapl_listing\<rparr> \<and>
   map expiration_date aapl_listing =
     [''2024-03-15'', ''2024-01-19'', ''2024-01-19'', ''2024-03-15'', ''2024-01-19'', ''2024-02-16''] \<and>
   fst (fetchOptionsExpirations polygon ''AAPL'') =
     Inr [''2024-01-19'', ''2024-02-16'', ''2024-03-15''] \<and>
   fst (fetchOptionsExpirations (polygon\<lparr>get_contracts := \<lambda>u e. Inr \<lparr>results = None\<rparr>\<rparr>) ''AAPL'') =
     Inr [] \<and>
   fst (fetchOptionsExpirations offline ''AAPL'') = Inl (RequestFailed ''Network Error'')"
  using fetchOptionsExpirations_sorted_unique [of polygon "''AAPL''"]
        fetchOptionsExpirations_sorted_unique
          [of "polygon\<lparr>get_contracts := \<lambda>u e. Inr \<lparr>results = None\<rparr>\<rparr>" "''AAPL''"]
        fetchOptionsExpirations_sorted_unique [of offline "''AAPL''"]
  by (simp add: fetchOptionsExpirations_eq polygon_def offline_def aapl_listing_def listed_def
        filter_indexed_def)

theorem fetchOptionsData_empty_witness:
  "get_contracts (polygon\<lparr>get_contracts := \<lambda>u e. Inr \<lparr>results = Some []\<rparr>\<rparr>) ''AAPL'' None =
     Inr \<lparr>results = Some []\<rparr> \<and>
   fst (fetchOptionsData (polygon\<lparr>get_contracts := \<lambda>u e. Inr \<lparr>results = Some []\<rparr>\<rparr>) ''AAPL'' None) =
     Inl (Error ''No expiration dates available'') \<and>
   fst (resolveExpiration polygon ''AAPL'' (Some ''2024-04-19'')) = Inr ''2024-04-19'' \<and>
   get_contracts polygon ''AAPL'' (Some ''2024-04-19'') = Inr \<lparr>results = Some []\<rparr> \<and>
   fst (fetchOptionsData polygon ''AAPL'' (Some ''2024-04-19'')) = Inr []"
  using fetchOptionsData_empty
          [of None "polygon\<lparr>get_contracts := \<lambda>u e. Inr \<lparr>results = Some []\<rparr>\<rparr>" "''AAPL''"]
        fetchOptionsData_empty [of "Some ''2024-04-19''" polygon "''AAPL''"]
  by (simp add: resolveExpiration_eq polygon_def aapl_listing_def listed_def)

text \<open>
  C5 (amended). \<open>fetchMarketStatus\<close> never throws. When the request fails it returns a
  synthesized status in which the market, the three exchanges (nasdaq, nyse, otc) and the
  fx currency market are closed and the crypto currency market is open; when the request
  succeeds it returns the reply.
\<close>

theorem fetchMarketStatus_degrades:
  "(\<exists>status. fst (fetchMarketStatus now p) = Inr status) \<and>
   (\<forall>e. get_market_status p = Inl e \<longrightarrow>
      fst (fetchMarketStatus now p) =
        Inr \<lparr>market = ''closed'',
             serverTime = now,
             status_exchanges = \<lparr>nasdaq = ''closed'', nyse = ''closed'', otc = ''closed''\<rparr>,
             status_currencies = \<lparr>fx = ''closed'', crypto = ''open''\<rparr>\<rparr>) \<and>
   (\<forall>status. get_market_status p = Inr status \<longrightarrow> fst (fetchMarketStatus now p) = Inr status)"
  by (auto simp: fetchMarketStatus_def closedMarketStatus_def client_defs split: sum.splits)

theorem fetchMarketStatus_degrades_witness:
  "get_market_status offline = Inl (RequestFailed ''Network Error'') \<and>
   fst (fetchMarketStatus ''2024-01-19T15:00:00.000Z'' offline) =
     Inr \<lparr>market = ''closed'',
          serverTime = ''2024-01-19T15:00:00.000Z'',
          status_exchanges = \<lparr>nasdaq = ''closed'', nyse = ''closed'', otc = ''closed''\<rparr>,
          status_currencies = \<lparr>fx = ''closed'', crypto = ''open''\<rparr>\<rparr>"
  using fetchMarketStatus_degrades [of "''2024-01-19T15:00:00.000Z''" offline]
  by (simp add: offline_def)

text \<open>
  The status synthesized on failure is not closed throughout: its crypto entry is
  \<^verbatim>\<open>'open'\<close>.
\<close>

theorem fetchMarketStatus_not_all_closed:
  "crypto (status_currencies (projr (fst (fetchMarketStatus ''2024-01-19T15:00:00.000Z'' offline))))
     \<noteq> ''closed''"
  by (simp add: fetchMarketStatus_def closedMarketStatus_def client_defs offline_def)

text \<open>
  C8. \<open>searchStocks\<close> and \<open>fetchHistoricalPrices\<close> never throw. A failed request gives
  the empty list, which is also what a reply without results gives, so the caller sees
  the same value for a provider error and for no data.
\<close>

theorem best_effort_fetches:
  "(\<exists>matches. fst (searchStocks p query) = Inr matches) \<and>
   (\<exists>bars. fst (fetchHistoricalPrices isoDate p stock tspan from to limit) = Inr bars) \<and>
   (\<forall>e. get_tickers p query = Inl e \<longrightarrow> fst (searchStocks p query) = Inr []) \<and>
   (\<forall>r. get_tickers p query = Inr r \<and> (results r = None \<or> results r = Some []) \<longrightarrow>
        fst (searchStocks p query) = Inr []) \<and>
   (\<forall>e. get_agg_range p stock tspan from to limit = Inl e \<longrightarrow>
        fst (fetchHistoricalPrices isoDate p stock tspan from to limit) = Inr []) \<and>
   (\<forall>r. get_agg_range p stock tspan from to limit = Inr r \<and>
        (results r = None \<or> results r = Some []) \<longrightarrow>
        fst (fetchHistoricalPrices isoDate p stock tspan from to limit) = Inr [])"
  by (auto simp: searchStocks_def fetchHistoricalPrices_def client_defs
      split: sum.splits option.splits)

theorem best_effort_fetches_witness:
  "get_tickers offline ''AAP'' = Inl (RequestFailed ''Network Error'') \<and>
   fst (searchStocks offline ''AAP'') = Inr [] \<and>
   get_tickers polygon ''AAP'' = Inr \<lparr>results = None\<rparr> \<and>
   fst (searchStocks polygon ''AAP'') = Inr [] \<and>
   get_agg_range offline ''AAPL'' Day ''2024-01-01'' ''2024-01-31'' 365 =
     Inl (RequestFailed ''Network Error'') \<and>
   fst (fetchHistoricalPrices (\<lambda>t. Some ''1970-01-01'') offline ''AAPL'' Day
          ''2024-01-01'' ''2024-01-31'' 365) = Inr [] \<and>
   get_agg_range polygon ''AAPL'' Day ''2024-01-01'' ''2024-01-31'' 365 = Inr \<lparr>results = None\<rparr> \<and>
   fst (fetchHistoricalPrices (\<lambda>t. Some ''1970-01-01'') polygon ''AAPL'' Day
          ''2024-01-01'' ''2024-01-31'' 365) = Inr []"
  using best_effort_fetches [of offline "''AAP''" "\<lambda>t. Some ''1970-01-01''" "''AAPL''" Day
          "''2024-01-01''" "''2024-01-31''" 365]
        best_effort_fetches [of polygon "''AAP''" "\<lambda>t. Some ''1970-01-01''" "''AAPL''" Day
          "''2024-01-01''" "''2024-01-31''" 365]
  by (simp add: offline_def polygon_def)

section \<open>Properties of the screen\<close>

text \<open>
  C4. The merge of a push update, delivered on the subscription of a contract symbol,
  into a contract list keeps the length of the list. Every record whose symbol is the
  subscribed one has the fields of the update merged into it: each of its twelve fields
  has the value that the update carries for that field, and the value it had before when
  the update does not carry the field. Every other record is kept as it is. When no
  record has that symbol the list is unchanged. When the update carries no symbol or the
  subscribed one, the symbols of the list are unchanged too.
\<close>

theorem mergeUpdate_frame:
  "length (mergeUpdate subscribed update opts) = length opts \<and>
   (\<forall>i < length opts.
      mergeUpdate subscribed update opts ! i =
        (if symbol (opts ! i) = subscribed then spread (opts ! i) update else opts ! i)) \<and>
   (\<forall>i < length opts. symbol (opts ! i) = subscribed \<longrightarrow>
      mergeUpdate subscribed update opts ! i =
        \<lparr>symbol = (case upd_symbol update of Some v \<Rightarrow> v | None \<Rightarrow> symbol (opts ! i)),
         underlyingSymbol =
           (case upd_underlyingSymbol update of
              Some v \<Rightarrow> v | None \<Rightarrow> underlyingSymbol (opts ! i)),
         expirationDate =
           (case upd_expirationDate update of Some v \<Rightarrow> v | None \<Rightarrow> expirationDate (opts ! i)),
         strikePrice =
           (case upd_strikePrice update of Some v \<Rightarrow> v | None \<Rightarrow> strikePrice (opts ! i)),
         optionType =
           (case upd_optionType update of Some v \<Rightarrow> v | None \<Rightarrow> optionType (opts ! i)),
         lastPrice =
           (case upd_lastPrice update of Some v \<Rightarrow> v | None \<Rightarrow> lastPrice (opts ! i)),
         bidPrice = (case upd_bidPrice update of Some v \<Rightarrow> v | None \<Rightarrow> bidPrice (opts ! i)),
         askPrice = (case upd_askPrice update of Some v \<Rightarrow> v | None \<Rightarrow> askPrice (opts ! i)),
         openInterest =
           (case upd_openInterest update of Some v \<Rightarrow> v | None \<Rightarrow> openInterest (opts ! i)),
         volume = (case upd_volume update of Some v \<Rightarrow> v | None \<Rightarrow> volume (opts ! i)),
         impliedVolatility =
           (case upd_impliedVolatility update of
              Some v \<Rightarrow> v | None \<Rightarrow> impliedVolatility (opts ! i)),
         greeks = (case upd_greeks update of Some v \<Rightarrow> v | None \<Rightarrow> greeks (opts ! i))\<rparr>) \<and>
   (\<forall>i < length opts. symbol (opts ! i) \<noteq> subscribed \<longrightarrow>
      mergeUpdate subscribed update opts ! i = opts ! i) \<and>
   (subscribed \<notin> symbol ` set opts \<longrightarrow> mergeUpdate subscribed update opts = opts) \<and>
   (upd_symbol update = None \<or> upd_symbol update = Some subscribed \<longrightarrow>
      map symbol (mergeUpdate subscribed update opts) = map symbol opts)"
proof -
  have same: "mergeUpdate subscribed update opts = opts" if "subscribed \<notin> symbol ` set opts"
    unfolding mergeUpdate_def using that by (intro map_idI) auto
  have symbols: "map symbol (mergeUpdate subscribed update opts) = map symbol opts"
    if "upd_symbol update = None \<or> upd_symbol update = Some subscribed"
    using that by (auto simp: mergeUpdate_def spread_def)
  have each: "mergeUpdate subscribed update opts ! i =
        (if symbol (opts ! i) = subscribed then spread (opts ! i) update else opts ! i)"
    if "i < length opts" for i
    using that by (simp add: mergeUpdate_def)
  have merged: "mergeUpdate subscribed update opts ! i =
        \<lparr>symbol = (case upd_symbol update of Some v \<Rightarrow> v | None \<Rightarrow> symbol (opts ! i)),
         underlyingSymbol =
           (case upd_underlyingSymbol update of
              Some v \<Rightarrow> v | None \<Rightarrow> underlyingSymbol (opts ! i)),
         expirationDate =
           (case upd_expirationDate update of Some v \<Rightarrow> v | None \<Rightarrow> expirationDate (opts ! i)),
         strikePrice =
           (case upd_strikePrice update of Some v \<Rightarrow> v | None \<Rightarrow> strikePrice (opts ! i)),
         optionType =
           (case upd_optionType update of Some v \<Rightarrow> v | None \<Rightarrow> optionType (opts ! i)),
         lastPrice =
           (case upd_lastPrice update of Some v \<Rightarrow> v | None \<Rightarrow> lastPrice (opts ! i)),
         bidPrice = (case upd_bidPrice update of Some v \<Rightarrow> v | None \<Rightarrow> bidPrice (opts ! i)),
         askPrice = (case upd_askPrice update of Some v \<Rightarrow> v | None \<Rightarrow> askPrice (opts ! i)),
         openInterest =
           (case upd_openInterest update of Some v \<Rightarrow> v | None \<Rightarrow> openInterest (opts ! i)),
         volume = (case upd_volume update of Some v \<Rightarrow> v | None \<Rightarrow> volume (opts ! i)),
         impliedVolatility =
           (case upd_impliedVolatility update of
              Some v \<Rightarrow> v | None \<Rightarrow> impliedVolatility (opts ! i)),
         greeks = (case upd_greeks update of Some v \<Rightarrow> v | None \<Rightarrow> greeks (opts ! i))\<rparr>"
    if "i < length opts" "symbol (opts ! i) = subscribed" for i
    using that by (simp add: each spread_def)
  have kept: "mergeUpdate subscribed update opts ! i = opts ! i"
    if "i < length opts" "symbol (opts ! i) \<noteq> subscribed" for i
    using that by (simp add: each)
  have len: "length (mergeUpdate subscribed update opts) = length opts"
    by (simp add: mergeUpdate_def)
  show ?thesis
  proof (intro conjI allI impI)
  qed (fact len same symbols | rule each merged kept, assumption+)+
qed

lemma includes_str_sublist: "includes_str str t \<longleftrightarrow> sublist t str"
  by (induction str) (auto simp: sublist_Cons_right)

lemma insert_by_strike:
  "insert_by (\<lambda>a b. strikePrice a - strikePrice b) x xs = insort_key strikePrice x xs"
  by (induction xs) auto

lemma sort_by_strike:
  "sort_by (\<lambda>a b. strikePrice a - strikePrice b) xs = sort_key strikePrice xs"
  by (induction xs) (simp_all add: sort_by_def insert_by_strike)

lemma shown_iff:
  "shown toString kind filterText option \<longleftrightarrow>
     optionType option = kind_name kind \<and>
     (filterText = [] \<or> sublist filterText (toString (strikePrice option)) \<or>
      sublist filterText (toString (openInterest option)))"
  by (simp add: shown_def includes_str_sublist)

lemma filteredOptions_sort_key:
  "filteredOptions toString opts kind filterText =
     sort_key strikePrice (filter (shown toString kind filterText) opts)"
  by (simp add: filteredOptions_def sort_by_strike)

lemma filteredOptions_store_frame:
  "ref < fresh h \<Longrightarrow>
   filteredOptions_store toString ref kind filterText h = (displayed, h') \<Longrightarrow>
   displayed \<noteq> ref \<and> cells h' ref = cells h ref \<and>
   cells h' displayed = filteredOptions toString (cells h ref) kind filterText"
  by (auto simp: filteredOptions_store_def array_filter_def array_sort_def filteredOptions_def)

text \<open>
  C6. The displayed rows are a function of the contract list, the selected type and the
  filter text. They are exactly the contracts of the list, with their multiplicity, that
  have the selected type and whose strike price or open interest, rendered as text,
  contains the filter text; all contracts of the type when the filter text is empty.
  They are in ascending order of strike price, contracts of equal strike in the order of
  the list. On the store of arrays the expression writes a new array only: the contract
  list is the same before and after.
\<close>

theorem filteredOptions_display:
  "mset (filteredOptions toString opts kind filterText) =
     {#option \<in># mset opts.
        optionType option = kind_name kind \<and>
        (filterText = [] \<or> sublist filterText (toString (strikePrice option)) \<or>
         sublist filterText (toString (openInterest option)))#} \<and>
   (filterText = [] \<longrightarrow>
      mset (filteredOptions toString opts kind filterText) =
        {#option \<in># mset opts. optionType option = kind_name kind#}) \<and>
   sorted (map strikePrice (filteredOptions toString opts kind filterText)) \<and>
   filteredOptions toString opts kind filterText =
     sort_key strikePrice (filter (shown toString kind filterText) opts) \<and>
   (\<forall>h ref. case filteredOptions_store toString ref kind filterText h of
      (displayed, h') \<Rightarrow>
        (ref < fresh h \<longrightarrow>
           displayed \<noteq> ref \<and>
           cells h' ref = cells h ref \<and>
           cells h' displayed = filteredOptions toString (cells h ref) kind filterText))"
proof -
  have sel: "mset (filteredOptions toString opts kind filterText) =
     {#option \<in># mset opts.
        optionType option = kind_name kind \<and>
        (filterText = [] \<or> sublist filterText (toString (strikePrice option)) \<or>
         sublist filterText (toString (openInterest option)))#}"
    by (simp add: filteredOptions_sort_key shown_iff)
  have all: "mset (filteredOptions toString opts kind filterText) =
        {#option \<in># mset opts. optionType option = kind_name kind#}" if "filterText = []"
    unfolding sel using that by simp
  have ord: "sorted (map strikePrice (filteredOptions toString opts kind filterText))"
    by (simp add: filteredOptions_sort_key)
  have frame: "case filteredOptions_store toString ref kind filterText h of
      (displayed, h') \<Rightarrow>
        (ref < fresh h \<longrightarrow>
           displayed \<noteq> ref \<and>
           cells h' ref = cells h ref \<and>
           cells h' displayed = filteredOptions toString (cells h ref) kind filterText)"
    for h :: "OptionData store" and ref
    using filteredOptions_store_frame [of ref h toString kind filterText]
    by (cases "filteredOptions_store toString ref kind filterText h") blast
  show ?thesis
  proof (intro conjI allI)
    show "filterText = [] \<longrightarrow>
      mset (filteredOptions toString opts kind filterText) =
        {#option \<in># mset opts. optionType option = kind_name kind#}"
      using all by (rule impI)
  qed (fact sel ord frame filteredOptions_sort_key)+
qed


lemma opens_append: "opens h (c @ c') = opens h c + opens h c'"
  by (simp add: opens_def)

lemma opens_stops: "opens h (map (\<lambda>(k, unsubscribe). Stopped unsubscribe) reg) = 0"
  by (induction reg) (auto simp: opens_def split: prod.splits)

lemma accountedD:
  assumes "accounted s"
  shows "opens h (channel s) =
           count_list (channel s) (Stopped h) +
           count_list (map snd (optionUnsubscribesRef s)) h +
           (if stockPriceUnsubscribeRef s = Some h then 1 else 0)"
    and "opens h (channel s) \<le> 1"
    and "next_handle s \<le> h \<Longrightarrow> opens h (channel s) = 0"
  using assms unfolding accounted_def by blast+

lemma count_stops:
  "count_list (map (\<lambda>(k, unsubscribe). Stopped unsubscribe) reg) (Stopped h) =
     count_list (map snd reg) h"
  by (induction reg) auto

lemma opens_pos: "Opened h sy \<in> set c \<Longrightarrow> 0 < opens h c"
  by (induction c) (auto simp: opens_def)

lemma map_fst_map_set:
  "map fst (map_set k v m) = (if k \<in> set (map fst m) then map fst m else map fst m @ [k])"
proof (induction m)
  case Nil
  show ?case by simp
next
  case (Cons kv m)
  obtain k' v' where kv: "kv = (k', v')" by (cases kv)
  show ?case
  proof (cases "k' = k")
    case True
    with kv show ?thesis by simp
  next
    case False
    with kv Cons.IH show ?thesis by (cases "k \<in> set (map fst m)") simp_all
  qed
qed

lemma map_set_keys: "set (map fst (map_set k v m)) = insert k (set (map fst m))"
  unfolding map_fst_map_set by auto

lemma map_set_fresh: "k \<notin> set (map fst m) \<Longrightarrow> map_set k v m = m @ [(k, v)]"
  by (induction m) auto

lemma accounted_cong:
  "channel s' = channel s \<Longrightarrow> next_handle s' = next_handle s \<Longrightarrow>
   optionUnsubscribesRef s' = optionUnsubscribesRef s \<Longrightarrow>
   stockPriceUnsubscribeRef s' = stockPriceUnsubscribeRef s \<Longrightarrow>
   accounted s' = accounted s"
  by (simp add: accounted_def)

lemma stopAll_fields:
  "channel (stopAll s) =
     channel s @ map (\<lambda>(k, unsubscribe). Stopped unsubscribe) (optionUnsubscribesRef s)"
  "optionUnsubscribesRef (stopAll s) = []"
  "next_handle (stopAll s) = next_handle s"
  "stockPriceUnsubscribeRef (stopAll s) = stockPriceUnsubscribeRef s"
  "options (stopAll s) = options s"
  by (simp_all add: stopAll_def)

lemma accounted_stopAll:
  assumes "accounted s"
  shows "accounted (stopAll s)"
  unfolding accounted_def
proof (intro allI)
  fix h
  show "opens h (channel (stopAll s)) =
          count_list (channel (stopAll s)) (Stopped h) +
          count_list (map snd (optionUnsubscribesRef (stopAll s))) h +
          (if stockPriceUnsubscribeRef (stopAll s) = Some h then 1 else 0) \<and>
        opens h (channel (stopAll s)) \<le> 1 \<and>
        (next_handle (stopAll s) \<le> h \<longrightarrow> opens h (channel (stopAll s)) = 0)"
    using accountedD [OF assms, of h]
    by (simp add: stopAll_fields opens_append opens_stops count_stops)
qed

lemma accounted_begin: "accounted s \<Longrightarrow> accounted (loadOptionsData_begin s)"
proof -
  assume "accounted s"
  moreover have "accounted (s\<lparr>loadingOptions := True\<rparr>) = accounted s"
    by (rule accounted_cong) simp_all
  ultimately have "accounted (s\<lparr>loadingOptions := True\<rparr>)" by simp
  then show ?thesis unfolding loadOptionsData_begin_def by (rule accounted_stopAll)
qed

lemma subscribeOption_fields:
  "channel (subscribeOption option s) = channel s @ [Opened (next_handle s) (symbol option)]"
  "next_handle (subscribeOption option s) = Suc (next_handle s)"
  "optionUnsubscribesRef (subscribeOption option s) =
     map_set (symbol option) (next_handle s) (optionUnsubscribesRef s)"
  "stockPriceUnsubscribeRef (subscribeOption option s) = stockPriceUnsubscribeRef s"
  "options (subscribeOption option s) = options s"
  by (simp_all add: subscribeOption_def subscribe_def)

lemma accounted_subscribeOption:
  assumes "accounted s" "symbol option \<notin> set (map fst (optionUnsubscribesRef s))"
  shows "accounted (subscribeOption option s)"
  unfolding accounted_def
proof (intro allI)
  fix h
  have one: "opens h [Opened (next_handle s) (symbol option)] = (if h = next_handle s then 1 else 0)"
    by (simp add: opens_def)
  show "opens h (channel (subscribeOption option s)) =
          count_list (channel (subscribeOption option s)) (Stopped h) +
          count_list (map snd (optionUnsubscribesRef (subscribeOption option s))) h +
          (if stockPriceUnsubscribeRef (subscribeOption option s) = Some h then 1 else 0) \<and>
        opens h (channel (subscribeOption option s)) \<le> 1 \<and>
        (next_handle (subscribeOption option s) \<le> h \<longrightarrow>
           opens h (channel (subscribeOption option s)) = 0)"
    using accountedD [OF assms(1), of h] assms(2)
    by (auto simp: subscribeOption_fields map_set_fresh opens_append one)
qed

lemma accounted_fold_subscribe:
  "accounted s \<Longrightarrow> distinct (map symbol xs) \<Longrightarrow>
   set (map symbol xs) \<inter> set (map fst (optionUnsubscribesRef s)) = {} \<Longrightarrow>
   accounted (fold subscribeOption xs s)"
proof (induction xs arbitrary: s)
  case Nil
  then show ?case by simp
next
  case (Cons x xs)
  have "accounted (subscribeOption x s)"
    using Cons.prems by (intro accounted_subscribeOption) auto
  moreover have "set (map symbol xs) \<inter>
      set (map fst (optionUnsubscribesRef (subscribeOption x s))) = {}"
    using Cons.prems unfolding subscribeOption_fields map_set_keys by auto
  ultimately show ?case using Cons.prems Cons.IH by simp
qed

lemma accounted_resume:
  assumes "accounted s" "optionUnsubscribesRef s = []"
    and "\<And>opts. outcome = Inr opts \<Longrightarrow> distinct (map symbol opts)"
  shows "accounted (loadOptionsData_resume outcome s)"
proof (cases outcome)
  case (Inl e)
  have "accounted (s\<lparr>alerts := alerts s @ [''Failed to load options chain''],
                     loadingOptions := False\<rparr>) = accounted s"
    by (rule accounted_cong) simp_all
  with Inl assms(1) show ?thesis by (simp add: loadOptionsData_resume_def)
next
  case (Inr opts)
  have "accounted (s\<lparr>options := opts\<rparr>) = accounted s"
    by (rule accounted_cong) simp_all
  with assms(1) have "accounted (s\<lparr>options := opts\<rparr>)" by simp
  then have "accounted (fold subscribeOption opts (s\<lparr>options := opts\<rparr>))"
    using assms(2) assms(3) [OF Inr] by (intro accounted_fold_subscribe) simp_all
  moreover have "accounted ((fold subscribeOption opts (s\<lparr>options := opts\<rparr>))\<lparr>loadingOptions := False\<rparr>) =
      accounted (fold subscribeOption opts (s\<lparr>options := opts\<rparr>))"
    by (rule accounted_cong) simp_all
  ultimately show ?thesis using Inr by (simp add: loadOptionsData_resume_def)
qed


lemma symbol_toOptionData: "symbol (toOptionData row details) = contract_ticker row"
  by (simp add: toOptionData_def)

lemma fetched_symbols_distinct:
  assumes listing: "\<forall>d r rows. get_contracts p underlying d = Inr r \<and> results r = Some rows \<longrightarrow>
                      distinct (map contract_ticker rows)"
    and fetched: "fst (fetchOptionsData p underlying requested) = Inr opts"
  shows "distinct (map symbol opts)"
proof -
  from fetched obtain d response where
    reply: "get_contracts p underlying (Some d) = Inr response" and
    opts: "opts = (case results response of
                     None \<Rightarrow> []
                   | Some rows \<Rightarrow>
                       map (\<lambda>row. toOptionData row
                                     (projr (fst (fetchOptionDetails p (contract_ticker row)))))
                         rows)"
    unfolding fetchOptionsData_eq by (auto split: sum.splits option.splits)
  show ?thesis
  proof (cases "results response")
    case None
    with opts show ?thesis by simp
  next
    case (Some rows)
    with listing reply have "distinct (map contract_ticker rows)" by blast
    moreover from opts Some have "map symbol opts = map contract_ticker rows"
      by (simp add: comp_def symbol_toOptionData)
    ultimately show ?thesis by simp
  qed
qed

lemma accounted_loadOptionsData:
  assumes "accounted s"
    and "\<forall>d r rows. get_contracts p underlying d = Inr r \<and> results r = Some rows \<longrightarrow>
           distinct (map contract_ticker rows)"
  shows "accounted (loadOptionsData p underlying expDate s)"
  unfolding loadOptionsData_def
proof (rule accounted_resume)
  show "accounted (loadOptionsData_begin s)" using assms(1) by (rule accounted_begin)
  show "optionUnsubscribesRef (loadOptionsData_begin s) = []"
    by (simp add: loadOptionsData_begin_def stopAll_fields)
  show "distinct (map symbol opts)"
    if "fst (fetchOptionsData p underlying (Some expDate)) = Inr opts" for opts
    using assms(2) that by (rule fetched_symbols_distinct)
qed

lemma accounted_handleExpirationChange:
  assumes "accounted s"
    and "\<forall>d r rows. get_contracts p underlying d = Inr r \<and> results r = Some rows \<longrightarrow>
           distinct (map contract_ticker rows)"
  shows "accounted (handleExpirationChange p underlying expDate s)"
proof -
  have "accounted (s\<lparr>selectedExpiration := expDate\<rparr>) = accounted s"
    by (rule accounted_cong) simp_all
  with assms(1) have "accounted (s\<lparr>selectedExpiration := expDate\<rparr>)" by simp
  then show ?thesis
    unfolding handleExpirationChange_def using assms(2) by (rule accounted_loadOptionsData)
qed

lemma accounted_selections:
  assumes "\<forall>d r rows. get_contracts p underlying d = Inr r \<and> results r = Some rows \<longrightarrow>
             distinct (map contract_ticker rows)"
  shows "accounted s \<Longrightarrow> accounted (fold (handleExpirationChange p underlying) selections s)"
proof (induction selections arbitrary: s)
  case Nil
  then show ?case by simp
next
  case (Cons expDate selections)
  from Cons.prems assms have "accounted (handleExpirationChange p underlying expDate s)"
    by (rule accounted_handleExpirationChange)
  then show ?case using Cons.IH by simp
qed

lemma accounted_initial: "accounted initial_screen"
  by (simp add: accounted_def initial_screen_def opens_def)

lemma accounted_stock_subscription:
  assumes "accounted s" "stockPriceUnsubscribeRef s = None"
  shows "accounted
           (s\<lparr>next_handle := Suc (next_handle s),
              channel := channel s @ [Opened (next_handle s) underlying],
              stockPriceUnsubscribeRef := Some (next_handle s)\<rparr>)"
  unfolding accounted_def
proof (intro allI)
  fix h
  let ?s = "s\<lparr>next_handle := Suc (next_handle s),
              channel := channel s @ [Opened (next_handle s) underlying],
              stockPriceUnsubscribeRef := Some (next_handle s)\<rparr>"
  have one: "opens h [Opened (next_handle s) underlying] = (if h = next_handle s then 1 else 0)"
    by (simp add: opens_def)
  show "opens h (channel ?s) =
          count_list (channel ?s) (Stopped h) +
          count_list (map snd (optionUnsubscribesRef ?s)) h +
          (if stockPriceUnsubscribeRef ?s = Some h then 1 else 0) \<and>
        opens h (channel ?s) \<le> 1 \<and>
        (next_handle ?s \<le> h \<longrightarrow> opens h (channel ?s) = 0)"
    using accountedD [OF assms(1), of h] assms(2)
    by (auto simp: opens_append one)
qed

lemma accounted_loadInitialData:
  assumes "accounted s" "stockPriceUnsubscribeRef s = None"
    and listing: "\<forall>d r rows. get_contracts p underlying d = Inr r \<and> results r = Some rows \<longrightarrow>
           distinct (map contract_ticker rows)"
  shows "accounted (loadInitialData p underlying s)"
proof -
  define s2 where "s2 = s\<lparr>next_handle := Suc (next_handle s),
                          channel := channel s @ [Opened (next_handle s) underlying],
                          stockPriceUnsubscribeRef := Some (next_handle s)\<rparr>"
  have s2: "accounted s2"
    unfolding s2_def using assms(1,2) by (rule accounted_stock_subscription)
  show ?thesis
  proof (cases "fst (fetchStockPrice p underlying)")
    case (Inl e)
    then have "loadInitialData p underlying s =
        s2\<lparr>alerts := alerts s2 @ [''Failed to load options data''], loading := False\<rparr>"
      by (simp add: loadInitialData_def subscribe_def s2_def)
    moreover have "accounted (s2\<lparr>alerts := alerts s2 @ [''Failed to load options data''],
                                 loading := False\<rparr>) = accounted s2"
      by (rule accounted_cong) simp_all
    ultimately show ?thesis using s2 by simp
  next
    case price: (Inr stockData)
    define s3 where "s3 = s2\<lparr>stockPrice := Some (currentPrice stockData)\<rparr>"
    have s3: "accounted s3 = accounted s2" unfolding s3_def by (rule accounted_cong) simp_all
    show ?thesis
    proof (cases "fst (fetchOptionsExpirations p underlying)")
      case (Inl e)
      with price have "loadInitialData p underlying s =
          s3\<lparr>alerts := alerts s3 @ [''Failed to load options data''], loading := False\<rparr>"
        by (simp add: loadInitialData_def subscribe_def s2_def s3_def)
      moreover have "accounted (s3\<lparr>alerts := alerts s3 @ [''Failed to load options data''],
                                   loading := False\<rparr>) = accounted s3"
        by (rule accounted_cong) simp_all
      ultimately show ?thesis using s2 s3 by simp
    next
      case dates: (Inr dates)
      define s4 where "s4 = s3\<lparr>expirationDates := dates\<rparr>"
      have s4: "accounted s4 = accounted s3" unfolding s4_def by (rule accounted_cong) simp_all
      show ?thesis
      proof (cases dates)
        case Nil
        with price dates have "loadInitialData p underlying s = s4\<lparr>loading := False\<rparr>"
          by (simp add: loadInitialData_def subscribe_def s2_def s3_def s4_def)
        moreover have "accounted (s4\<lparr>loading := False\<rparr>) = accounted s4"
          by (rule accounted_cong) simp_all
        ultimately show ?thesis using s2 s3 s4 by simp
      next
        case (Cons first rest)
        let ?loaded = "loadOptionsData p underlying first (s4\<lparr>selectedExpiration := first\<rparr>)"
        from Cons price dates have "loadInitialData p underlying s = ?loaded\<lparr>loading := False\<rparr>"
          by (simp add: loadInitialData_def subscribe_def s2_def s3_def s4_def)
        moreover have "accounted (?loaded\<lparr>loading := False\<rparr>) = accounted ?loaded"
          by (rule accounted_cong) simp_all
        moreover have "accounted (s4\<lparr>selectedExpiration := first\<rparr>) = accounted s4"
          by (rule accounted_cong) simp_all
        then have "accounted (s4\<lparr>selectedExpiration := first\<rparr>)" using s2 s3 s4 by simp
        then have "accounted ?loaded" using listing by (rule accounted_loadOptionsData)
        ultimately show ?thesis by simp
      qed
    qed
  qed
qed

lemma cleanup_fields:
  "channel (cleanup s) =
     channel s @
     (case stockPriceUnsubscribeRef s of Some unsubscribe \<Rightarrow> [Stopped unsubscribe] | None \<Rightarrow> []) @
     map (\<lambda>(k, unsubscribe). Stopped unsubscribe) (optionUnsubscribesRef s)"
  "optionUnsubscribesRef (cleanup s) = []"
  "stockPriceUnsubscribeRef (cleanup s) = None"
  "next_handle (cleanup s) = next_handle s"
  by (simp_all add: cleanup_def stopAll_fields split: option.splits)

lemma opens_Stopped: "opens h (Stopped a # c) = opens h c"
  by (simp add: opens_def)

lemma accounted_cleanup:
  assumes "accounted s"
  shows "accounted (cleanup s)"
  unfolding accounted_def
proof (intro allI)
  fix h
  show "opens h (channel (cleanup s)) =
          count_list (channel (cleanup s)) (Stopped h) +
          count_list (map snd (optionUnsubscribesRef (cleanup s))) h +
          (if stockPriceUnsubscribeRef (cleanup s) = Some h then 1 else 0) \<and>
        opens h (channel (cleanup s)) \<le> 1 \<and>
        (next_handle (cleanup s) \<le> h \<longrightarrow> opens h (channel (cleanup s)) = 0)"
    using accountedD [OF assms, of h]
    by (cases "stockPriceUnsubscribeRef s")
       (auto simp: cleanup_fields opens_append opens_stops count_stops opens_Stopped)
qed

lemma accounted_all_stopped:
  assumes "accounted s" "optionUnsubscribesRef s = []" "stockPriceUnsubscribeRef s = None"
    and "Opened h sy \<in> set (channel s)"
  shows "count_list (channel s) (Stopped h) = 1"
proof -
  from assms(4) have "0 < opens h (channel s)" by (rule opens_pos)
  with accountedD(1,2) [OF assms(1), of h] assms(2,3) show ?thesis by simp
qed



lemmas example_defs =
  polygon_def offline_def aapl_listing_def listed_def quoted_def bar_100_110_def
  enriched_def defaulted_def chain_0119_def

lemma fetched_0119: "fst (fetchOptionsData polygon ''AAPL'' (Some ''2024-01-19'')) = Inr chain_0119"
  by (simp add: fetchOptionsData_eq resolveExpiration_eq fetchOptionDetails_eq toOptionData_def
        extractDetails_def defaultDetails_def or_else_def toLowerCase_def lower_char_def
        example_defs)

lemma fetched_0216:
  "fst (fetchOptionsData polygon ''AAPL'' (Some ''2024-02-16'')) =
     Inr [enriched ''C160'' ''2024-02-16'' ''call'' 160]"
  by (simp add: fetchOptionsData_eq resolveExpiration_eq fetchOptionDetails_eq toOptionData_def
        extractDetails_def defaultDetails_def or_else_def toLowerCase_def lower_char_def
        example_defs)

lemma mounted_state:
  "mounted =
     \<lparr>stockPrice = Some 110,
      expirationDates = [''2024-01-19'', ''2024-02-16'', ''2024-03-15''],
      selectedExpiration = ''2024-01-19'',
      options = chain_0119,
      loading = False,
      loadingOptions = False,
      stockPriceUnsubscribeRef = Some 0,
      optionUnsubscribesRef = [(''C145'', 1), (''P140'', 2), (''C140'', 3)],
      alerts = [],
      next_handle = 4,
      channel = [Opened 0 ''AAPL'', Opened 1 ''C145'', Opened 2 ''P140'', Opened 3 ''C140'']\<rparr>"
proof -
  have price: "fst (fetchStockPrice polygon ''AAPL'') =
      Inr \<lparr>ticker = ''AAPL'', currentPrice = 110, previousClose = 100, change = 10,
            changePercent = Finite 10\<rparr>"
    by (simp add: fetchStockPrice_def client_defs js_div_def example_defs)
  have dates: "fst (fetchOptionsExpirations polygon ''AAPL'') =
      Inr [''2024-01-19'', ''2024-02-16'', ''2024-03-15'']"
    by (simp add: fetchOptionsExpirations_eq filter_indexed_def example_defs)
  show ?thesis
    by (simp add: mounted_def loadInitialData_def subscribe_def initial_screen_def price dates
          loadOptionsData_def loadOptionsData_begin_def loadOptionsData_resume_def stopAll_def
          subscribeOption_def fetched_0119 chain_0119_def enriched_def defaulted_def)
qed

text \<open>
  An update of the last price of the second of three contracts, an update of all its
  fields, and an update for a contract that is not in the list.
\<close>

theorem mergeUpdate_frame_witness:
  "mergeUpdate ''P140'' (price_update 7) chain_0119 =
     [enriched ''C145'' ''2024-01-19'' ''call'' 145,
      (defaulted ''P140'' ''2024-01-19'' ''put'' 140)\<lparr>lastPrice := 7\<rparr>,
      enriched ''C140'' ''2024-01-19'' ''call'' 140] \<and>
   mergeUpdate ''P140'' full_update chain_0119 =
     [enriched ''C145'' ''2024-01-19'' ''call'' 145,
      \<lparr>symbol = ''P140'', underlyingSymbol = ''AAPL1'', expirationDate = ''2024-01-26'',
       strikePrice = 141, optionType = ''call'', lastPrice = 7, bidPrice = 6, askPrice = 8,
       openInterest = 50, volume = 20, impliedVolatility = 3/10,
       greeks = \<lparr>delta = - 2/5, gamma = 1/20, theta = - 1/50, vega = 1/10, rho = None\<rparr>\<rparr>,
      enriched ''C140'' ''2024-01-19'' ''call'' 140] \<and>
   ''C160'' \<notin> symbol ` set chain_0119 \<and>
   mergeUpdate ''C160'' (price_update 7) chain_0119 = chain_0119 \<and>
   map symbol (mergeUpdate ''P140'' (price_update 7) chain_0119) = [''C145'', ''P140'', ''C140'']"
  using mergeUpdate_frame [of "''P140''" "price_update 7" chain_0119]
        mergeUpdate_frame [of "''P140''" full_update chain_0119]
        mergeUpdate_frame [of "''C160''" "price_update 7" chain_0119]
  by (simp add: mergeUpdate_def spread_def price_update_def full_update_def example_defs)

theorem filteredOptions_display_witness:
  "filteredOptions render chain_0119 Call ''14'' =
     [enriched ''C140'' ''2024-01-19'' ''call'' 140, enriched ''C145'' ''2024-01-19'' ''call'' 145] \<and>
   filteredOptions render chain_0119 Call ''45'' = [enriched ''C145'' ''2024-01-19'' ''call'' 145] \<and>
   filteredOptions render chain_0119 Call ''120'' =
     [enriched ''C140'' ''2024-01-19'' ''call'' 140, enriched ''C145'' ''2024-01-19'' ''call'' 145] \<and>
   filteredOptions render chain_0119 Put [] = [defaulted ''P140'' ''2024-01-19'' ''put'' 140] \<and>
   filteredOptions render chain_0119 Put ''9'' = [] \<and>
   (case filteredOptions_store render 0 Call ''14''
           \<lparr>cells = (\<lambda>a. if a = 0 then chain_0119 else []), fresh = 1\<rparr> of
      (displayed, h') \<Rightarrow>
        displayed = 1 \<and> fresh h' = 2 \<and> cells h' 0 = chain_0119 \<and>
        cells h' 1 =
          [enriched ''C140'' ''2024-01-19'' ''call'' 140,
           enriched ''C145'' ''2024-01-19'' ''call'' 145])"
  using filteredOptions_display [of render chain_0119 Call "''14''"]
        filteredOptions_display [of render chain_0119 Put "[]"]
  by (simp add: filteredOptions_def filteredOptions_store_def array_filter_def array_sort_def
        sort_by_def shown_def render_def example_defs)


lemma fold_subscribe_fields:
  "channel (fold subscribeOption xs s) =
     channel s @
     map (\<lambda>(h, option). Opened h (symbol option))
       (zip [next_handle s..<next_handle s + length xs] xs) \<and>
   next_handle (fold subscribeOption xs s) = next_handle s + length xs \<and>
   options (fold subscribeOption xs s) = options s"
proof (induction xs arbitrary: s)
  case Nil
  show ?case by simp
next
  case (Cons x xs)
  have "[next_handle s..<next_handle s + length (x # xs)] =
        next_handle s # [Suc (next_handle s)..<Suc (next_handle s) + length xs]"
    by (subst upt_rec) simp
  with Cons [of "subscribeOption x s"] show ?case
    by (simp add: subscribeOption_fields)
qed

lemma begin_fields:
  "channel (loadOptionsData_begin s) =
     channel s @ map (\<lambda>(k, unsubscribe). Stopped unsubscribe) (optionUnsubscribesRef s)"
  "optionUnsubscribesRef (loadOptionsData_begin s) = []"
  "next_handle (loadOptionsData_begin s) = next_handle s"
  "options (loadOptionsData_begin s) = options s"
  by (simp_all add: loadOptionsData_begin_def stopAll_def)

lemma resume_fields:
  "channel (loadOptionsData_resume (Inr opts) s) =
     channel s @
     map (\<lambda>(h, option). Opened h (symbol option))
       (zip [next_handle s..<next_handle s + length opts] opts)"
  "options (loadOptionsData_resume (Inr opts) s) = opts"
  "channel (loadOptionsData_resume (Inl e) s) = channel s"
  "options (loadOptionsData_resume (Inl e) s) = options s"
  using fold_subscribe_fields [of opts "s\<lparr>options := opts\<rparr>"]
  by (simp_all add: loadOptionsData_resume_def)

lemma switch_channel:
  "channel (handleExpirationChange p underlying expDate s) =
     channel s @
     map (\<lambda>(k, unsubscribe). Stopped unsubscribe) (optionUnsubscribesRef s) @
     (case fst (fetchOptionsData p underlying (Some expDate)) of
        Inl e \<Rightarrow> []
      | Inr opts \<Rightarrow>
          map (\<lambda>(h, option). Opened h (symbol option))
            (zip [next_handle s..<next_handle s + length opts] opts))"
  by (cases "fst (fetchOptionsData p underlying (Some expDate))")
     (simp_all add: handleExpirationChange_def loadOptionsData_def resume_fields begin_fields)

text \<open>
  C2 (amended). When \<open>loadOptionsData\<close> is called, every stop capability in the registry
  is invoked and the registry is cleared, and no subscription is opened; the
  subscriptions of the new contract set are opened only when the fetch has settled, after
  all of those stops. A push update for a contract of the previous set that arrives
  after the call is not filtered out: while the fetch is pending it is merged into the
  list, which still holds the previous contracts; once the fetched contracts have
  replaced the list it changes nothing, provided that no fetched contract has its symbol.
\<close>

theorem expiration_switch_order:
  "channel (loadOptionsData_begin s) =
     channel s @ map (\<lambda>(k, unsubscribe). Stopped unsubscribe) (optionUnsubscribesRef s) \<and>
   optionUnsubscribesRef (loadOptionsData_begin s) = [] \<and>
   next_handle (loadOptionsData_begin s) = next_handle s \<and>
   options (loadOptionsData_begin s) = options s \<and>
   channel (loadOptionsData_resume (Inr opts) s1) =
     channel s1 @
     map (\<lambda>(h, option). Opened h (symbol option))
       (zip [next_handle s1..<next_handle s1 + length opts] opts) \<and>
   options (loadOptionsData_resume (Inr opts) s1) = opts \<and>
   channel (handleExpirationChange p underlying expDate s) =
     channel s @
     map (\<lambda>(k, unsubscribe). Stopped unsubscribe) (optionUnsubscribesRef s) @
     (case fst (fetchOptionsData p underlying (Some expDate)) of
        Inl e \<Rightarrow> []
      | Inr opts \<Rightarrow>
          map (\<lambda>(h, option). Opened h (symbol option))
            (zip [next_handle s..<next_handle s + length opts] opts)) \<and>
   options (onOptionUpdate stale update (loadOptionsData_begin s)) =
     mergeUpdate stale update (options s) \<and>
   (stale \<notin> symbol ` set opts \<longrightarrow>
      options (onOptionUpdate stale update (loadOptionsData_resume (Inr opts) s1)) = opts)"
proof -
  have "mergeUpdate stale update opts = opts" if "stale \<notin> symbol ` set opts"
    unfolding mergeUpdate_def using that by (intro map_idI) auto
  then show ?thesis
    by (simp add: begin_fields resume_fields onOptionUpdate_def switch_channel)
qed

theorem expiration_switch_order_witness:
  "channel (loadOptionsData_begin mounted) =
     [Opened 0 ''AAPL'', Opened 1 ''C145'', Opened 2 ''P140'', Opened 3 ''C140'',
      Stopped 1, Stopped 2, Stopped 3] \<and>
   optionUnsubscribesRef (loadOptionsData_begin mounted) = [] \<and>
   channel (loadOptionsData_resume (Inr [enriched ''C160'' ''2024-02-16'' ''call'' 160])
              (loadOptionsData_begin mounted)) =
     [Opened 0 ''AAPL'', Opened 1 ''C145'', Opened 2 ''P140'', Opened 3 ''C140'',
      Stopped 1, Stopped 2, Stopped 3, Opened 4 ''C160''] \<and>
   channel (handleExpirationChange polygon ''AAPL'' ''2024-02-16'' mounted) =
     [Opened 0 ''AAPL'', Opened 1 ''C145'', Opened 2 ''P140'', Opened 3 ''C140'',
      Stopped 1, Stopped 2, Stopped 3, Opened 4 ''C160''] \<and>
   ''C145'' \<notin> symbol ` set [enriched ''C160'' ''2024-02-16'' ''call'' 160] \<and>
   options (onOptionUpdate ''C145'' (price_update 9)
              (loadOptionsData_resume (Inr [enriched ''C160'' ''2024-02-16'' ''call'' 160])
                 (loadOptionsData_begin mounted))) =
     [enriched ''C160'' ''2024-02-16'' ''call'' 160]"
  using expiration_switch_order
          [of mounted "[enriched ''C160'' ''2024-02-16'' ''call'' 160]"
              "loadOptionsData_begin mounted" polygon "''AAPL''" "''2024-02-16''"
              "''C145''" "price_update 9"]
  by (simp add: mounted_state fetched_0216 enriched_def)

text \<open>
  The claim as stated fails: after mount the user selects another expiration, the
  subscription of C145 is stopped, and an update for C145 that arrives before the fetch
  settles changes the displayed last price from 5 to 9.
\<close>

theorem stale_update_applied:
  "Stopped 1 \<in> set (channel (loadOptionsData_begin mounted)) \<and>
   Opened 1 ''C145'' \<in> set (channel (loadOptionsData_begin mounted)) \<and>
   map lastPrice (options (loadOptionsData_begin mounted)) = [5, 0, 5] \<and>
   map lastPrice (options (onOptionUpdate ''C145'' (price_update 9) (loadOptionsData_begin mounted)))
     = [9, 0, 5]"
  by (simp add: begin_fields mounted_state onOptionUpdate_def mergeUpdate_def spread_def
        price_update_def example_defs)

text \<open>
  What the cleanup does, and what it achieves when nothing is pending. On unmount the stop
  capability of the stock subscription, when one is stored, and the stop capability of
  every contract subscription in the registry are each invoked, and the registry is
  cleared. In a visit of the screen where every load has finished before the next
  selection and before the unmount, and no listing of the provider repeats a contract
  symbol, every subscription that was opened has received exactly one stop call when the
  view is torn down.
\<close>

theorem unmount_stops_every_handle:
  "channel (cleanup s) =
     channel s @
     (case stockPriceUnsubscribeRef s of Some unsubscribe \<Rightarrow> [Stopped unsubscribe] | None \<Rightarrow> []) @
     map (\<lambda>(k, unsubscribe). Stopped unsubscribe) (optionUnsubscribesRef s) \<and>
   optionUnsubscribesRef (cleanup s) = [] \<and>
   stockPriceUnsubscribeRef (cleanup s) = None \<and>
   ((\<forall>d r rows. get_contracts p underlying d = Inr r \<and> results r = Some rows \<longrightarrow>
        distinct (map contract_ticker rows)) \<longrightarrow>
    optionUnsubscribesRef (visit p underlying selections) = [] \<and>
    stockPriceUnsubscribeRef (visit p underlying selections) = None \<and>
    (\<forall>h sy. Opened h sy \<in> set (channel (visit p underlying selections)) \<longrightarrow>
        count_list (channel (visit p underlying selections)) (Stopped h) = 1))"
proof -
  have "count_list (channel (visit p underlying selections)) (Stopped h) = 1"
    if listing: "\<forall>d r rows. get_contracts p underlying d = Inr r \<and> results r = Some rows \<longrightarrow>
        distinct (map contract_ticker rows)"
      and opened: "Opened h sy \<in> set (channel (visit p underlying selections))" for h sy
  proof -
    have "accounted (loadInitialData p underlying initial_screen)"
      using accounted_initial _ listing
      by (rule accounted_loadInitialData) (simp add: initial_screen_def)
    with listing have "accounted (fold (handleExpirationChange p underlying) selections
                         (loadInitialData p underlying initial_screen))"
      by (rule accounted_selections)
    then have "accounted (visit p underlying selections)"
      unfolding visit_def by (rule accounted_cleanup)
    moreover have "optionUnsubscribesRef (visit p underlying selections) = []"
      "stockPriceUnsubscribeRef (visit p underlying selections) = None"
      by (simp_all add: visit_def cleanup_fields)
    ultimately show ?thesis using opened by (rule accounted_all_stopped)
  qed
  then show ?thesis
    by (simp add: cleanup_fields visit_def)
qed

lemma polygon_listing_distinct:
  "\<forall>d r rows. get_contracts polygon ''AAPL'' d = Inr r \<and> results r = Some rows \<longrightarrow>
     distinct (map contract_ticker rows)"
proof (intro allI impI)
  fix d r rows
  assume a: "get_contracts polygon ''AAPL'' d = Inr r \<and> results r = Some rows"
  have all: "distinct (map contract_ticker aapl_listing)"
    by (simp add: aapl_listing_def listed_def)
  from a show "distinct (map contract_ticker rows)"
    using all by (cases d) (auto simp: polygon_def distinct_map_filter)
qed

theorem unmount_stops_every_handle_witness:
  "channel (cleanup mounted) =
     [Opened 0 ''AAPL'', Opened 1 ''C145'', Opened 2 ''P140'', Opened 3 ''C140'',
      Stopped 0, Stopped 1, Stopped 2, Stopped 3] \<and>
   optionUnsubscribesRef (cleanup mounted) = [] \<and>
   stockPriceUnsubscribeRef (cleanup mounted) = None \<and>
   channel (visit polygon ''AAPL'' [''2024-02-16'']) =
     [Opened 0 ''AAPL'', Opened 1 ''C145'', Opened 2 ''P140'', Opened 3 ''C140'',
      Stopped 1, Stopped 2, Stopped 3, Opened 4 ''C160'', Stopped 0, Stopped 4] \<and>
   count_list (channel (visit polygon ''AAPL'' [''2024-02-16''])) (Stopped 4) = 1"
proof -
  have run: "channel (visit polygon ''AAPL'' [''2024-02-16'']) =
     [Opened 0 ''AAPL'', Opened 1 ''C145'', Opened 2 ''P140'', Opened 3 ''C140'',
      Stopped 1, Stopped 2, Stopped 3, Opened 4 ''C160'', Stopped 0, Stopped 4]"
    by (simp add: visit_def handleExpirationChange_def loadOptionsData_def fetched_0216
          mounted_def [symmetric] mounted_state cleanup_def loadOptionsData_begin_def loadOptionsData_resume_def
          stopAll_def subscribeOption_def subscribe_def enriched_def)
  then have "Opened 4 ''C160'' \<in> set (channel (visit polygon ''AAPL'' [''2024-02-16'']))"
    by simp
  with unmount_stops_every_handle [of mounted polygon "''AAPL''" "[''2024-02-16'']"]
    polygon_listing_distinct
  have "count_list (channel (visit polygon ''AAPL'' [''2024-02-16''])) (Stopped 4) = 1"
    by blast
  with run unmount_stops_every_handle [of mounted polygon "''AAPL''" "[''2024-02-16'']"]
  show ?thesis by (simp add: mounted_state)
qed

text \<open>
  C9. The cleanup of the screen is meant to stop every subscription: the comments of the
  source name the two refs as \<^verbatim>\<open>Refs for subscriptions that need to be cleaned up\<close> and
  the cleanup as \<^verbatim>\<open>Clean up all option subscriptions\<close>, and every handle placed in the
  registry is to receive exactly one stop call before the view is torn down. The code
  does not achieve it when the screen is unmounted while the fetch for a newly selected
  expiration is pending: the cleanup runs first, the rest of \<open>loadOptionsData\<close> runs
  when the fetch settles, opens the subscription of C160 and puts its stop capability,
  handle 4, in the registry after the cleanup. The log of the push channel has the
  opening of handle 4 and no stop of it, and the registry of the torn-down screen still
  holds it.
\<close>

theorem handle_abandoned_after_unmount:
  "optionUnsubscribesRef unmounted_while_loading = [(''C160'', 4)] \<and>
   channel unmounted_while_loading =
     [Opened 0 ''AAPL'', Opened 1 ''C145'', Opened 2 ''P140'', Opened 3 ''C140'',
      Stopped 1, Stopped 2, Stopped 3, Stopped 0, Opened 4 ''C160''] \<and>
   count_list (channel unmounted_while_loading) (Stopped 4) = 0"
  by (simp add: unmounted_while_loading_def fetched_0216 mounted_state cleanup_def
        loadOptionsData_begin_def loadOptionsData_resume_def stopAll_def subscribeOption_def
        subscribe_def enriched_def)

text \<open>
  The same loss of a stop capability without an unmount. When a second selection is made
  while the fetch of the first is pending, both continuations subscribe, and
  \<^verbatim>\<open>Map.set\<close> on the symbol that they share replaces the first stop capability:
  handle 4 is never stopped, not even by the cleanup.
\<close>

lemma overlapping_loads_abandon_handle:
  "optionUnsubscribesRef
     (loadOptionsData_resume (Inr [enriched ''C160'' ''2024-02-16'' ''call'' 160])
        (loadOptionsData_resume (Inr [enriched ''C160'' ''2024-02-16'' ''call'' 160])
           (loadOptionsData_begin (loadOptionsData_begin mounted)))) = [(''C160'', 5)] \<and>
   channel
     (cleanup
        (loadOptionsData_resume (Inr [enriched ''C160'' ''2024-02-16'' ''call'' 160])
           (loadOptionsData_resume (Inr [enriched ''C160'' ''2024-02-16'' ''call'' 160])
              (loadOptionsData_begin (loadOptionsData_begin mounted))))) =
     [Opened 0 ''AAPL'', Opened 1 ''C145'', Opened 2 ''P140'', Opened 3 ''C140'',
      Stopped 1, Stopped 2, Stopped 3, Opened 4 ''C160'', Opened 5 ''C160'',
      Stopped 0, Stopped 5]"
  by (simp add: mounted_state cleanup_def loadOptionsData_begin_def loadOptionsData_resume_def
        stopAll_def subscribeOption_def subscribe_def enriched_def)

text \<open>The same happens within one load when a listing repeats a contract symbol.\<close>

lemma repeated_symbol_abandons_handle:
  "channel
     (cleanup
        (loadOptionsData_resume
           (Inr [enriched ''C160'' ''2024-02-16'' ''call'' 160,
                 enriched ''C160'' ''2024-02-16'' ''call'' 160])
           (loadOptionsData_begin mounted))) =
     [Opened 0 ''AAPL'', Opened 1 ''C145'', Opened 2 ''P140'', Opened 3 ''C140'',
      Stopped 1, Stopped 2, Stopped 3, Opened 4 ''C160'', Opened 5 ''C160'',
      Stopped 0, Stopped 5]"
  by (simp add: mounted_state cleanup_def loadOptionsData_begin_def loadOptionsData_resume_def
        stopAll_def subscribeOption_def subscribe_def enriched_def)

end
